theory Spec2Isabelle
  imports Complex_Main
begin

section \<open>Metrics sampling, rolling history and threshold alerts (MetricsPage.tsx)\<close>

text \<open>
  The development embeds \<^verbatim>\<open>apps/vfs-desktop/src/pages/MetricsPage.tsx\<close>.
  A JavaScript \<^verbatim>\<open>number\<close> is modelled as a \<^typ>\<open>real\<close>: arithmetic and comparisons
  are exact, and the values \<^verbatim>\<open>NaN\<close> and \<^verbatim>\<open>Infinity\<close> are outside the model.
  A value of type \<^verbatim>\<open>number | null\<close> is a \<^typ>\<open>real option\<close>.
\<close>

subsection \<open>Types matching the backend\<close>

record GpuInfo =
  gpu_id :: nat
  name :: string
  vendor :: string
  info_memory_total_mb :: real

record GpuMetrics =
  gpu_utilization :: real
  gpu_memory_used_mb :: real
  gpu_memory_total_mb :: real
  memory_utilization :: real
  temperature_celsius :: "real option"
  power_usage_watts :: "real option"
  power_limit_watts :: "real option"
  fan_speed_percent :: "real option"
  clock_speed_mhz :: "real option"
  memory_clock_mhz :: "real option"
  pcie_throughput_tx_mbps :: "real option"
  pcie_throughput_rx_mbps :: "real option"
  encoder_utilization :: "real option"
  decoder_utilization :: "real option"

record SystemMetrics =
  cpu_usage :: real
  per_core_usage :: "real list"
  memory_used_mb :: real
  memory_total_mb :: real
  memory_usage_percent :: real
  swap_used_mb :: real
  swap_total_mb :: real
  disk_read_bytes_sec :: real
  disk_write_bytes_sec :: real
  network_rx_bytes_sec :: real
  network_tx_bytes_sec :: real
  load_average :: "real \<times> real \<times> real"
  uptime_seconds :: real

record GpuWithMetrics =
  info :: GpuInfo
  current :: GpuMetrics
  history :: "GpuMetrics list"

record AllMetrics =
  gpus :: "GpuWithMetrics list"
  system :: SystemMetrics

subsection \<open>Rolling history\<close>

text \<open>
  The component state \<^verbatim>\<open>historicalData\<close>: one array of samples per charted metric.
  The fields \<^verbatim>\<open>cpu\<close>, \<^verbatim>\<open>memory\<close>, \<^verbatim>\<open>swap\<close> and \<^verbatim>\<open>gpu\<close> carry the prefix
  \<open>hist_\<close> here, since the threshold configuration has fields of the same names.
\<close>

record HistoricalData =
  hist_cpu :: "real list"
  hist_memory :: "real list"
  hist_swap :: "real list"
  hist_gpu :: "real list"
  gpuMem :: "real list"
  gpuTemp :: "real list"
  diskRead :: "real list"
  diskWrite :: "real list"
  netRx :: "real list"
  netTx :: "real list"

definition initialHistoricalData :: HistoricalData where
  "initialHistoricalData =
     \<lparr>hist_cpu = [], hist_memory = [], hist_swap = [], hist_gpu = [], gpuMem = [],
      gpuTemp = [], diskRead = [], diskWrite = [], netRx = [], netTx = []\<rparr>"

text \<open>
  \<^verbatim>\<open>xs.slice(-n)\<close> for \<open>n > 0\<close>: the last \<open>n\<close> elements of the array, the whole array
  when it is shorter. (For \<open>n = 0\<close> JavaScript reads \<^verbatim>\<open>slice(-0)\<close> as \<^verbatim>\<open>slice(0)\<close>;
  the program only calls it with 59.)
\<close>

definition slice_last :: "nat \<Rightarrow> 'a list \<Rightarrow> 'a list" where
  "slice_last n xs = drop (length xs - n) xs"

text \<open>\<^verbatim>\<open>[...prev.slice(-59), v]\<close>\<close>

definition push_sample :: "real list \<Rightarrow> real \<Rightarrow> real list" where
  "push_sample prev v = slice_last 59 prev @ [v]"

text \<open>
  \<^verbatim>\<open>swap_total_mb > 0 ? (swap_used_mb / swap_total_mb) * 100 : 0\<close>, as written both in
  the alert check and in the history update.
\<close>

definition swapPercent :: "SystemMetrics \<Rightarrow> real" where
  "swapPercent s =
     (if swap_total_mb s > 0 then (swap_used_mb s / swap_total_mb s) * 100 else 0)"

text \<open>
  \<^verbatim>\<open>const gpu = data.gpus[0]\<close> followed by \<^verbatim>\<open>gpu?.current.f ?? 0\<close>: the value of the
  first GPU, 0 when there is none.
\<close>

definition first_gpu_value :: "(GpuMetrics \<Rightarrow> real) \<Rightarrow> AllMetrics \<Rightarrow> real" where
  "first_gpu_value f data = (case gpus data of [] \<Rightarrow> 0 | g # _ \<Rightarrow> f (current g))"

text \<open>\<^verbatim>\<open>gpu?.current.temperature_celsius ?? 0\<close>: a missing reading is charted as 0.\<close>

definition temperature_or_zero :: "GpuMetrics \<Rightarrow> real" where
  "temperature_or_zero m = (case temperature_celsius m of None \<Rightarrow> 0 | Some v \<Rightarrow> v)"

text \<open>The updater passed to \<^verbatim>\<open>setHistoricalData\<close> in \<^verbatim>\<open>fetchMetrics\<close>.\<close>

definition updateHistoricalData :: "AllMetrics \<Rightarrow> HistoricalData \<Rightarrow> HistoricalData" where
  "updateHistoricalData data prev =
     \<lparr>hist_cpu = push_sample (hist_cpu prev) (cpu_usage (system data)),
      hist_memory = push_sample (hist_memory prev) (memory_usage_percent (system data)),
      hist_swap = push_sample (hist_swap prev) (swapPercent (system data)),
      hist_gpu = push_sample (hist_gpu prev) (first_gpu_value gpu_utilization data),
      gpuMem = push_sample (gpuMem prev) (first_gpu_value memory_utilization data),
      gpuTemp = push_sample (gpuTemp prev) (first_gpu_value temperature_or_zero data),
      diskRead = push_sample (diskRead prev) (disk_read_bytes_sec (system data)),
      diskWrite = push_sample (diskWrite prev) (disk_write_bytes_sec (system data)),
      netRx = push_sample (netRx prev) (network_rx_bytes_sec (system data)),
      netTx = push_sample (netTx prev) (network_tx_bytes_sec (system data))\<rparr>"

text \<open>The history after a run of successful polls, oldest snapshot first.\<close>

definition history_after :: "AllMetrics list \<Rightarrow> HistoricalData" where
  "history_after ds = fold updateHistoricalData ds initialHistoricalData"

subsection \<open>Threshold configuration\<close>

record ThresholdConfig =
  cpu :: real
  memory :: real
  swap :: real
  gpu :: real
  gpuMemory :: real
  temperature :: real
  diskIO :: real
  networkIO :: real

definition DEFAULT_THRESHOLDS :: ThresholdConfig where
  "DEFAULT_THRESHOLDS =
     \<lparr>cpu = 90, memory = 85, swap = 75, gpu = 90, gpuMemory = 90, temperature = 85,
      diskIO = 500, networkIO = 100\<rparr>"

text \<open>
  TypeScript's types are erased at run time: what \<^verbatim>\<open>loadThresholds\<close> returns is a plain
  object built by object spread, whatever the stored text holds. Values read from JSON
  are modelled by \<open>json\<close>, an object by a map from property names to values.
\<close>

datatype json =
  JNull
  | JBool bool
  | JNumber real
  | JString string
  | JArray "json list"
  | JObject "(string \<times> json) list"

type_synonym js_object = "string \<rightharpoonup> json"

text \<open>Decimal digits of an array index, as in the template literal \<^verbatim>\<open>`gpu-${i}`\<close>.\<close>

definition digit_char :: "nat \<Rightarrow> char" where
  "digit_char n = ''0123456789'' ! n"

fun string_of_nat :: "nat \<Rightarrow> string" where
  "string_of_nat n =
     (if n < 10 then [digit_char n] else string_of_nat (n div 10) @ [digit_char (n mod 10)])"

text \<open>
  The own enumerable properties that \<^verbatim>\<open>{...x}\<close> copies from a parsed value \<open>x\<close>.
  \<open>JObject\<close> lists the members of the JSON text in order; a name occurring twice keeps
  its last value, as \<^verbatim>\<open>JSON.parse\<close> does. An array and a string spread their indexed
  elements; \<^verbatim>\<open>null\<close>, a boolean and a number spread nothing.
\<close>

definition own_properties :: "json \<Rightarrow> js_object" where
  "own_properties v =
     (case v of
        JObject kvs \<Rightarrow> map_of (rev kvs)
      | JArray xs \<Rightarrow> map_of (zip (map string_of_nat [0..<length xs]) xs)
      | JString s \<Rightarrow>
          map_of (zip (map string_of_nat [0..<length s]) (map (\<lambda>c. JString [c]) s))
      | _ \<Rightarrow> Map.empty)"

text \<open>The object that the literal \<^verbatim>\<open>DEFAULT_THRESHOLDS\<close> denotes, property by property.\<close>

definition config_object :: "ThresholdConfig \<Rightarrow> js_object" where
  "config_object c =
     map_of
       [(''cpu'', JNumber (cpu c)), (''memory'', JNumber (memory c)),
        (''swap'', JNumber (swap c)), (''gpu'', JNumber (gpu c)),
        (''gpuMemory'', JNumber (gpuMemory c)), (''temperature'', JNumber (temperature c)),
        (''diskIO'', JNumber (diskIO c)), (''networkIO'', JNumber (networkIO c))]"

definition threshold_keys :: "string list" where
  "threshold_keys =
     [''cpu'', ''memory'', ''swap'', ''gpu'', ''gpuMemory'', ''temperature'', ''diskIO'',
      ''networkIO'']"

text \<open>
  What \<^verbatim>\<open>localStorage.getItem('ursly-metric-thresholds')\<close> does: it raises (storage
  absent or denied), returns \<^verbatim>\<open>null\<close>, or returns the stored text.
\<close>

datatype storage_read = GetItemThrows | NoItem | Item string

text \<open>
  \<^verbatim>\<open>loadThresholds\<close>. \<^verbatim>\<open>JSON.parse\<close> is the platform's and is a parameter: \<open>None\<close> is
  its \<^verbatim>\<open>SyntaxError\<close>. Every exception inside the \<^verbatim>\<open>try\<close> block ends in the
  \<^verbatim>\<open>return DEFAULT_THRESHOLDS\<close> after the empty \<^verbatim>\<open>catch\<close>; \<^verbatim>\<open>if (saved)\<close> is false
  for \<^verbatim>\<open>null\<close> and for the empty string.
\<close>

definition loadThresholds :: "(string \<Rightarrow> json option) \<Rightarrow> storage_read \<Rightarrow> js_object" where
  "loadThresholds JSON_parse rd =
     (case rd of
        GetItemThrows \<Rightarrow> config_object DEFAULT_THRESHOLDS
      | NoItem \<Rightarrow> config_object DEFAULT_THRESHOLDS
      | Item saved \<Rightarrow>
          if saved = [] then config_object DEFAULT_THRESHOLDS
          else (case JSON_parse saved of
                  None \<Rightarrow> config_object DEFAULT_THRESHOLDS
                | Some v \<Rightarrow> config_object DEFAULT_THRESHOLDS ++ own_properties v))"

subsection \<open>Threshold alerts\<close>

text \<open>
  The argument of \<^verbatim>\<open>showToast\<close>. The run-time state of the evaluator is the set
  \<^verbatim>\<open>alertedRef.current\<close> together with the toasts shown so far, oldest first.
\<close>

record Toast =
  toast_type :: string
  message :: string
  duration :: nat

record alert_state =
  alerts :: "string set"
  toasts :: "Toast list"

definition showToast :: "Toast \<Rightarrow> alert_state \<Rightarrow> alert_state" where
  "showToast t st = st\<lparr>toasts := toasts st @ [t]\<rparr>"

text \<open>
  \<^verbatim>\<open>x.toFixed(0)\<close> for \<open>\<bar>x\<bar> < 10\<^sup>2\<^sup>1\<close>: the sign, then the integer nearest to \<open>\<bar>x\<bar>\<close>, the
  larger one of two equally near. From \<open>10\<^sup>2\<^sup>1\<close> on JavaScript prints the number in
  exponent notation, which this function does not reproduce: a statement about the text
  of an event is made for values below that bound only.
\<close>

definition toFixed0 :: "real \<Rightarrow> string" where
  "toFixed0 x =
     (if x < 0 then ''-'' @ string_of_nat (nat \<lfloor>- x + 1 / 2\<rfloor>)
      else string_of_nat (nat \<lfloor>x + 1 / 2\<rfloor>))"

text \<open>The degree sign of the temperature message, in UTF-8.\<close>

definition degree_sign :: string where
  "degree_sign = [char_of (194 :: nat), char_of (176 :: nat)]"

definition cpu_alert :: "ThresholdConfig \<Rightarrow> AllMetrics \<Rightarrow> alert_state \<Rightarrow> alert_state" where
  "cpu_alert thresholds data st =
     (if cpu_usage (system data) \<ge> cpu thresholds \<and> ''cpu'' \<notin> alerts st
      then (showToast
              \<lparr>toast_type = ''warning'',
               message = ''CPU critical: '' @ toFixed0 (cpu_usage (system data)) @ ''%'',
               duration = 5000\<rparr> st)
             \<lparr>alerts := insert ''cpu'' (alerts st)\<rparr>
      else if cpu_usage (system data) < cpu thresholds * 0.9
      then st\<lparr>alerts := alerts st - {''cpu''}\<rparr>
      else st)"

definition memory_alert :: "ThresholdConfig \<Rightarrow> AllMetrics \<Rightarrow> alert_state \<Rightarrow> alert_state" where
  "memory_alert thresholds data st =
     (if memory_usage_percent (system data) \<ge> memory thresholds \<and> ''memory'' \<notin> alerts st
      then (showToast
              \<lparr>toast_type = ''warning'',
               message =
                 ''Memory critical: '' @ toFixed0 (memory_usage_percent (system data)) @ ''%'',
               duration = 5000\<rparr> st)
             \<lparr>alerts := insert ''memory'' (alerts st)\<rparr>
      else if memory_usage_percent (system data) < memory thresholds * 0.9
      then st\<lparr>alerts := alerts st - {''memory''}\<rparr>
      else st)"

definition swap_alert :: "ThresholdConfig \<Rightarrow> AllMetrics \<Rightarrow> alert_state \<Rightarrow> alert_state" where
  "swap_alert thresholds data st =
     (if swapPercent (system data) \<ge> swap thresholds \<and> ''swap'' \<notin> alerts st
      then (showToast
              \<lparr>toast_type = ''warning'',
               message = ''Swap critical: '' @ toFixed0 (swapPercent (system data)) @ ''%'',
               duration = 5000\<rparr> st)
             \<lparr>alerts := insert ''swap'' (alerts st)\<rparr>
      else if swapPercent (system data) < swap thresholds * 0.9
      then st\<lparr>alerts := alerts st - {''swap''}\<rparr>
      else st)"

text \<open>
  The swap check as it stands after the line \<^verbatim>\<open>const swapPercent = ...\<close>, for a given
  value \<open>p\<close> of that constant. The source computes the percentage in double
  arithmetic, which \<open>swapPercent\<close> idealises by exact division; what is proved of
  \<open>swap_check\<close> for every \<open>p\<close> holds for whatever number the platform computed.
\<close>

definition swap_check :: "ThresholdConfig \<Rightarrow> real \<Rightarrow> alert_state \<Rightarrow> alert_state" where
  "swap_check thresholds p st =
     (if p \<ge> swap thresholds \<and> ''swap'' \<notin> alerts st
      then (showToast
              \<lparr>toast_type = ''warning'',
               message = ''Swap critical: '' @ toFixed0 p @ ''%'',
               duration = 5000\<rparr> st)
             \<lparr>alerts := insert ''swap'' (alerts st)\<rparr>
      else if p < swap thresholds * 0.9
      then st\<lparr>alerts := alerts st - {''swap''}\<rparr>
      else st)"

text \<open>The three checks in the body of \<^verbatim>\<open>data.gpus.forEach((gpu, i) => ...)\<close>.\<close>

definition gpu_alert :: "ThresholdConfig \<Rightarrow> nat \<Rightarrow> GpuWithMetrics \<Rightarrow> alert_state \<Rightarrow> alert_state" where
  "gpu_alert thresholds i g st =
     (if gpu_utilization (current g) \<ge> gpu thresholds
           \<and> (''gpu-'' @ string_of_nat i) \<notin> alerts st
      then (showToast
              \<lparr>toast_type = ''warning'',
               message = ''GPU at '' @ toFixed0 (gpu_utilization (current g)) @ ''%'',
               duration = 5000\<rparr> st)
             \<lparr>alerts := insert (''gpu-'' @ string_of_nat i) (alerts st)\<rparr>
      else if gpu_utilization (current g) < gpu thresholds * 0.9
      then st\<lparr>alerts := alerts st - {''gpu-'' @ string_of_nat i}\<rparr>
      else st)"

definition gpu_memory_alert ::
  "ThresholdConfig \<Rightarrow> nat \<Rightarrow> GpuWithMetrics \<Rightarrow> alert_state \<Rightarrow> alert_state" where
  "gpu_memory_alert thresholds i g st =
     (if memory_utilization (current g) \<ge> gpuMemory thresholds
           \<and> (''gpuMem-'' @ string_of_nat i) \<notin> alerts st
      then (showToast
              \<lparr>toast_type = ''warning'',
               message = ''GPU VRAM at '' @ toFixed0 (memory_utilization (current g)) @ ''%'',
               duration = 5000\<rparr> st)
             \<lparr>alerts := insert (''gpuMem-'' @ string_of_nat i) (alerts st)\<rparr>
      else if memory_utilization (current g) < gpuMemory thresholds * 0.9
      then st\<lparr>alerts := alerts st - {''gpuMem-'' @ string_of_nat i}\<rparr>
      else st)"

text \<open>
  The temperature check. \<^verbatim>\<open>temperature_celsius\<close> is a \<^verbatim>\<open>number | null\<close> used as a
  condition: it is falsy when it is \<^verbatim>\<open>null\<close> and when it is 0. The first condition is
  \<^verbatim>\<open>t && t >= thresholds.temperature && !alerts.has(key)\<close>, the second
  \<^verbatim>\<open>!t || t < thresholds.temperature * 0.9\<close>.
\<close>

definition temperature_alert ::
  "ThresholdConfig \<Rightarrow> nat \<Rightarrow> GpuWithMetrics \<Rightarrow> alert_state \<Rightarrow> alert_state" where
  "temperature_alert thresholds i g st =
     (case temperature_celsius (current g) of
        None \<Rightarrow> st\<lparr>alerts := alerts st - {''temp-'' @ string_of_nat i}\<rparr>
      | Some t \<Rightarrow>
          if t \<noteq> 0 \<and> t \<ge> temperature thresholds \<and> (''temp-'' @ string_of_nat i) \<notin> alerts st
          then (showToast
                  \<lparr>toast_type = ''error'',
                   message = ''GPU temp: '' @ toFixed0 t @ degree_sign @ ''C'',
                   duration = 5000\<rparr> st)
                 \<lparr>alerts := insert (''temp-'' @ string_of_nat i) (alerts st)\<rparr>
          else if t = 0 \<or> t < temperature thresholds * 0.9
          then st\<lparr>alerts := alerts st - {''temp-'' @ string_of_nat i}\<rparr>
          else st)"

definition gpu_alerts :: "ThresholdConfig \<Rightarrow> nat \<times> GpuWithMetrics \<Rightarrow> alert_state \<Rightarrow> alert_state" where
  "gpu_alerts thresholds ig st =
     temperature_alert thresholds (fst ig) (snd ig)
       (gpu_memory_alert thresholds (fst ig) (snd ig)
          (gpu_alert thresholds (fst ig) (snd ig) st))"

text \<open>\<^verbatim>\<open>checkThresholds\<close>: the three system checks, then the loop over the GPUs with
  their array indices.\<close>

definition checkThresholds :: "ThresholdConfig \<Rightarrow> AllMetrics \<Rightarrow> alert_state \<Rightarrow> alert_state" where
  "checkThresholds thresholds data st =
     fold (gpu_alerts thresholds) (enumerate 0 (gpus data))
       (swap_alert thresholds data (memory_alert thresholds data (cpu_alert thresholds data st)))"

text \<open>\<^verbatim>\<open>checkThresholds\<close> for a given value \<open>p\<close> of the constant \<^verbatim>\<open>swapPercent\<close>.\<close>

definition checkThresholds_at ::
  "real \<Rightarrow> ThresholdConfig \<Rightarrow> AllMetrics \<Rightarrow> alert_state \<Rightarrow> alert_state" where
  "checkThresholds_at p thresholds data st =
     fold (gpu_alerts thresholds) (enumerate 0 (gpus data))
       (swap_check thresholds p (memory_alert thresholds data (cpu_alert thresholds data st)))"

subsection \<open>The polling loop\<close>

text \<open>
  What a rejected \<^verbatim>\<open>invokeTauri\<close> call throws: an \<^verbatim>\<open>Error\<close> object with its message,
  or any other value. The \<^verbatim>\<open>catch\<close> block reads
  \<^verbatim>\<open>err instanceof Error ? err.message : 'Failed to load metrics'\<close>.
\<close>

datatype thrown = ErrorObject string | OtherValue

definition error_message :: "thrown \<Rightarrow> string" where
  "error_message err = (case err of ErrorObject m \<Rightarrow> m | OtherValue \<Rightarrow> ''Failed to load metrics'')"

text \<open>
  The state of the page: the React state variables, the alert evaluator's state and the
  stored configuration, and the two things the runtime holds for the component:
  \<^item> \<open>interval\<close>: the timer registered by \<^verbatim>\<open>setInterval(fetchMetrics, 2000)\<close>, with the
    thresholds that its \<^verbatim>\<open>fetchMetrics\<close> closes over; \<open>None\<close> when no timer is registered;
  \<^item> \<open>pending\<close>: the calls of \<^verbatim>\<open>fetchMetrics\<close> that wait for \<^verbatim>\<open>invokeTauri\<close>, oldest
    first, each with the thresholds of its closure.
  \<open>persisted\<close> is the configuration last written to \<^verbatim>\<open>localStorage\<close> by this page.
\<close>

record page_state =
  metrics :: "AllMetrics option"
  error :: "string option"
  sessionUptime :: nat
  thresholds :: ThresholdConfig
  alerting :: alert_state
  historicalData :: HistoricalData
  persisted :: "ThresholdConfig option"
  interval :: "ThresholdConfig option"
  pending :: "ThresholdConfig list"

definition initial_page :: "ThresholdConfig \<Rightarrow> page_state" where
  "initial_page th =
     \<lparr>metrics = None, error = None, sessionUptime = 0, thresholds = th,
      alerting = \<lparr>alerts = {}, toasts = []\<rparr>, historicalData = initialHistoricalData,
      persisted = None, interval = None, pending = []\<rparr>"

text \<open>
  \<^verbatim>\<open>saveThresholds\<close>: \<^verbatim>\<open>setItem\<close> either stores the text or raises, and the exception
  is ignored.
\<close>

definition saveThresholds :: "bool \<Rightarrow> ThresholdConfig \<Rightarrow> page_state \<Rightarrow> page_state" where
  "saveThresholds setItem_ok new s = (if setItem_ok then s\<lparr>persisted := Some new\<rparr> else s)"

text \<open>\<^verbatim>\<open>handleSaveThresholds\<close>\<close>

definition handleSaveThresholds :: "bool \<Rightarrow> ThresholdConfig \<Rightarrow> page_state \<Rightarrow> page_state" where
  "handleSaveThresholds setItem_ok newThresholds s =
     (saveThresholds setItem_ok newThresholds (s\<lparr>thresholds := newThresholds\<rparr>))
       \<lparr>alerting := (alerting s)\<lparr>alerts := {}\<rparr>\<rparr>"

text \<open>
  The body of \<^verbatim>\<open>fetchMetrics\<close> from the point where \<^verbatim>\<open>await invokeTauri(...)\<close> settles:
  \<open>Inr data\<close> when the promise is fulfilled, \<open>Inl err\<close> when it is rejected. The first
  argument is the threshold configuration of the closure. The state setters are applied
  as the source calls them; the reference \<^verbatim>\<open>alertedRef\<close> and \<^verbatim>\<open>showToast\<close> do not
  depend on the component being mounted.
\<close>

definition fetchMetrics :: "ThresholdConfig \<Rightarrow> thrown + AllMetrics \<Rightarrow> page_state \<Rightarrow> page_state" where
  "fetchMetrics th r s =
     (case r of
        Inr data \<Rightarrow>
          s\<lparr>metrics := Some data, error := None, sessionUptime := sessionUptime s + 2,
            alerting := checkThresholds th data (alerting s),
            historicalData := updateHistoricalData data (historicalData s)\<rparr>
      | Inl err \<Rightarrow> s\<lparr>error := Some (error_message err)\<rparr>)"

text \<open>
  The effect: without the desktop bridge it only sets the error; otherwise it calls
  \<^verbatim>\<open>fetchMetrics()\<close> once and registers the timer. Its cleanup is \<^verbatim>\<open>clearInterval\<close>.
\<close>

definition effect_setup :: "bool \<Rightarrow> page_state \<Rightarrow> page_state" where
  "effect_setup isTauriAvailable s =
     (if \<not> isTauriAvailable
      then s\<lparr>error := Some ''Metrics are only available in the desktop app''\<rparr>
      else s\<lparr>pending := pending s @ [thresholds s], interval := Some (thresholds s)\<rparr>)"

definition effect_cleanup :: "page_state \<Rightarrow> page_state" where
  "effect_cleanup s = s\<lparr>interval := None\<rparr>"

text \<open>The timer fires: a registered timer calls its \<^verbatim>\<open>fetchMetrics\<close>.\<close>

definition interval_tick :: "page_state \<Rightarrow> page_state" where
  "interval_tick s =
     (case interval s of None \<Rightarrow> s | Some th \<Rightarrow> s\<lparr>pending := pending s @ [th]\<rparr>)"

text \<open>The oldest pending call settles with result \<open>r\<close>.\<close>

definition fetch_settled :: "thrown + AllMetrics \<Rightarrow> page_state \<Rightarrow> page_state" where
  "fetch_settled r s =
     (case pending s of [] \<Rightarrow> s | th # rest \<Rightarrow> fetchMetrics th r (s\<lparr>pending := rest\<rparr>))"

subsection \<open>The evaluation rule of the design specification\<close>

text \<open>
  Section 4.3 of the specification states the evaluator as one rule applied to each
  tracked metric \<open>m\<close> with value \<open>v\<close>, threshold \<open>t\<close> and active set \<open>A\<close>. The definitions
  of this subsection follow that text, for comparison with \<open>checkThresholds\<close>.
  A tracked metric carries its key, its value, its threshold and the event it emits.
\<close>

record tracked =
  m_key :: string
  m_value :: real
  m_limit :: real
  m_event :: Toast

definition enters :: "string set \<Rightarrow> tracked \<Rightarrow> bool" where
  "enters A m = (m_value m \<ge> m_limit m \<and> m_key m \<notin> A)"

definition clears :: "string set \<Rightarrow> tracked \<Rightarrow> bool" where
  "clears A m = (m_value m < m_limit m * 0.9 \<and> m_key m \<in> A)"

definition spec_rule :: "tracked \<Rightarrow> alert_state \<Rightarrow> alert_state" where
  "spec_rule m st =
     (if enters (alerts st) m
      then \<lparr>alerts = insert (m_key m) (alerts st), toasts = toasts st @ [m_event m]\<rparr>
      else if clears (alerts st) m then st\<lparr>alerts := alerts st - {m_key m}\<rparr>
      else st)"

text \<open>
  The system metrics that a snapshot gives a value to, in the order of evaluation; \<open>p\<close>
  is the computed swap percentage.
\<close>

definition system_tracked_at :: "real \<Rightarrow> ThresholdConfig \<Rightarrow> AllMetrics \<Rightarrow> tracked list" where
  "system_tracked_at p th d =
     [\<lparr>m_key = ''cpu'', m_value = cpu_usage (system d), m_limit = cpu th,
       m_event = \<lparr>toast_type = ''warning'',
                  message = ''CPU critical: '' @ toFixed0 (cpu_usage (system d)) @ ''%'',
                  duration = 5000\<rparr>\<rparr>,
      \<lparr>m_key = ''memory'', m_value = memory_usage_percent (system d), m_limit = memory th,
       m_event = \<lparr>toast_type = ''warning'',
                  message =
                    ''Memory critical: '' @ toFixed0 (memory_usage_percent (system d)) @ ''%'',
                  duration = 5000\<rparr>\<rparr>,
      \<lparr>m_key = ''swap'', m_value = p, m_limit = swap th,
       m_event = \<lparr>toast_type = ''warning'',
                  message = ''Swap critical: '' @ toFixed0 p @ ''%'',
                  duration = 5000\<rparr>\<rparr>]"

text \<open>The same with the exact quotient \<open>swapPercent\<close> as the swap percentage.\<close>

definition system_tracked :: "ThresholdConfig \<Rightarrow> AllMetrics \<Rightarrow> tracked list" where
  "system_tracked th d = system_tracked_at (swapPercent (system d)) th d"

definition gpu_tracked :: "ThresholdConfig \<Rightarrow> nat \<Rightarrow> GpuWithMetrics \<Rightarrow> tracked" where
  "gpu_tracked th i g =
     \<lparr>m_key = ''gpu-'' @ string_of_nat i, m_value = gpu_utilization (current g),
      m_limit = gpu th,
      m_event = \<lparr>toast_type = ''warning'',
                 message = ''GPU at '' @ toFixed0 (gpu_utilization (current g)) @ ''%'',
                 duration = 5000\<rparr>\<rparr>"

definition gpu_memory_tracked :: "ThresholdConfig \<Rightarrow> nat \<Rightarrow> GpuWithMetrics \<Rightarrow> tracked" where
  "gpu_memory_tracked th i g =
     \<lparr>m_key = ''gpuMem-'' @ string_of_nat i, m_value = memory_utilization (current g),
      m_limit = gpuMemory th,
      m_event = \<lparr>toast_type = ''warning'',
                 message = ''GPU VRAM at '' @ toFixed0 (memory_utilization (current g)) @ ''%'',
                 duration = 5000\<rparr>\<rparr>"

definition temperature_tracked :: "ThresholdConfig \<Rightarrow> nat \<Rightarrow> real \<Rightarrow> tracked" where
  "temperature_tracked th i t =
     \<lparr>m_key = ''temp-'' @ string_of_nat i, m_value = t, m_limit = temperature th,
      m_event = \<lparr>toast_type = ''error'',
                 message = ''GPU temp: '' @ toFixed0 t @ degree_sign @ ''C'',
                 duration = 5000\<rparr>\<rparr>"

text \<open>
  The code's condition on \<^verbatim>\<open>temperature_celsius\<close> is false for \<^verbatim>\<open>null\<close> and for 0.
  For a reading of 0 and a positive threshold the temperature check nevertheless does
  what the rule does (0 is below 0.9 times the threshold, and the key is removed). So
  the rule covers a reading that is present and either not 0 or compared with a
  positive threshold.
\<close>

definition evaluated_reading :: "ThresholdConfig \<Rightarrow> real option \<Rightarrow> bool" where
  "evaluated_reading th v =
     (case v of None \<Rightarrow> False | Some t \<Rightarrow> t \<noteq> 0 \<or> 0 < temperature th)"

definition device_tracked :: "ThresholdConfig \<Rightarrow> nat \<times> GpuWithMetrics \<Rightarrow> tracked list" where
  "device_tracked th ig =
     [gpu_tracked th (fst ig) (snd ig), gpu_memory_tracked th (fst ig) (snd ig)]
     @ (case temperature_celsius (current (snd ig)) of
          None \<Rightarrow> []
        | Some t \<Rightarrow>
            if t \<noteq> 0 \<or> 0 < temperature th then [temperature_tracked th (fst ig) t] else [])"

text \<open>
  All metrics that the rule covers, in the order of evaluation: for the swap percentage
  \<open>p\<close>, and for the exact quotient \<open>swapPercent\<close>.
\<close>

definition tracked_metrics_at :: "real \<Rightarrow> ThresholdConfig \<Rightarrow> AllMetrics \<Rightarrow> tracked list" where
  "tracked_metrics_at p th d =
     system_tracked_at p th d @ concat (map (device_tracked th) (enumerate 0 (gpus d)))"

definition tracked_metrics :: "ThresholdConfig \<Rightarrow> AllMetrics \<Rightarrow> tracked list" where
  "tracked_metrics th d = tracked_metrics_at (swapPercent (system d)) th d"

text \<open>
  The temperature keys of the GPUs whose reading the rule does not cover: the check
  removes them.
\<close>

definition device_unread :: "ThresholdConfig \<Rightarrow> nat \<times> GpuWithMetrics \<Rightarrow> string list" where
  "device_unread th ig =
     (if evaluated_reading th (temperature_celsius (current (snd ig))) then []
      else [''temp-'' @ string_of_nat (fst ig)])"

definition unread_temperature_keys :: "ThresholdConfig \<Rightarrow> AllMetrics \<Rightarrow> string list" where
  "unread_temperature_keys th d = concat (map (device_unread th) (enumerate 0 (gpus d)))"

text \<open>The three keys of the GPU at index \<open>i\<close>.\<close>

definition device_keys :: "nat \<Rightarrow> string set" where
  "device_keys i =
     {''gpu-'' @ string_of_nat i, ''gpuMem-'' @ string_of_nat i, ''temp-'' @ string_of_nat i}"

subsection \<open>Snapshots used in the examples\<close>

definition idle_system :: SystemMetrics where
  "idle_system =
     \<lparr>cpu_usage = 0, per_core_usage = [], memory_used_mb = 0, memory_total_mb = 16384,
      memory_usage_percent = 0, swap_used_mb = 0, swap_total_mb = 0,
      disk_read_bytes_sec = 0, disk_write_bytes_sec = 0, network_rx_bytes_sec = 0,
      network_tx_bytes_sec = 0, load_average = (0, 0, 0), uptime_seconds = 0\<rparr>"

text \<open>A snapshot without GPUs in which only the CPU usage is not zero.\<close>

definition cpu_reading :: "real \<Rightarrow> AllMetrics" where
  "cpu_reading v = \<lparr>gpus = [], system = idle_system\<lparr>cpu_usage := v\<rparr>\<rparr>"

text \<open>A GPU with the given identifier, utilization and temperature, idle otherwise.\<close>

definition gpu_reading :: "nat \<Rightarrow> real \<Rightarrow> real option \<Rightarrow> GpuWithMetrics" where
  "gpu_reading ident util temp =
     \<lparr>info = \<lparr>gpu_id = ident, name = ''GPU'', vendor = ''vendor'', info_memory_total_mb = 8192\<rparr>,
      current =
        \<lparr>gpu_utilization = util, gpu_memory_used_mb = 0, gpu_memory_total_mb = 8192,
         memory_utilization = 0, temperature_celsius = temp, power_usage_watts = None,
         power_limit_watts = None, fan_speed_percent = None, clock_speed_mhz = None,
         memory_clock_mhz = None, pcie_throughput_tx_mbps = None,
         pcie_throughput_rx_mbps = None, encoder_utilization = None,
         decoder_utilization = None\<rparr>,
      history = []\<rparr>"

definition gpu_snapshot :: "GpuWithMetrics list \<Rightarrow> AllMetrics" where
  "gpu_snapshot gs = \<lparr>gpus = gs, system = idle_system\<rparr>"

definition no_alerts :: alert_state where
  "no_alerts = \<lparr>alerts = {}, toasts = []\<rparr>"

text \<open>The evaluator over successive snapshots, under one threshold configuration.\<close>

definition evaluate_all :: "ThresholdConfig \<Rightarrow> AllMetrics list \<Rightarrow> alert_state \<Rightarrow> alert_state" where
  "evaluate_all th ds st = fold (checkThresholds th) ds st"

section \<open>Properties\<close>

declare string_of_nat.simps [simp del]

subsection \<open>Rolling history\<close>

lemma length_push_sample: "length (push_sample xs v) = min (length xs) 59 + 1"
  by (simp add: push_sample_def slice_last_def)

lemma fold_push_sample:
  "fold (\<lambda>d xs. push_sample xs (f d)) ds [] = drop (length ds - 60) (map f ds)"
proof (induction ds rule: rev_induct)
  case Nil
  show ?case by simp
next
  case (snoc d ds)
  show ?case
  proof (cases "length ds < 60")
    case True
    with snoc show ?thesis by (simp add: push_sample_def slice_last_def)
  next
    case False
    then have "length ds - 60 + 1 = Suc (length ds) - 60" by simp
    with snoc False show ?thesis
      by (simp add: push_sample_def slice_last_def Suc_diff_le)
  qed
qed

lemma fold_updateHistoricalData:
  "fold updateHistoricalData ds h =
     \<lparr>hist_cpu = fold (\<lambda>d xs. push_sample xs (cpu_usage (system d))) ds (hist_cpu h),
      hist_memory = fold (\<lambda>d xs. push_sample xs (memory_usage_percent (system d))) ds (hist_memory h),
      hist_swap = fold (\<lambda>d xs. push_sample xs (swapPercent (system d))) ds (hist_swap h),
      hist_gpu = fold (\<lambda>d xs. push_sample xs (first_gpu_value gpu_utilization d)) ds (hist_gpu h),
      gpuMem = fold (\<lambda>d xs. push_sample xs (first_gpu_value memory_utilization d)) ds (gpuMem h),
      gpuTemp = fold (\<lambda>d xs. push_sample xs (first_gpu_value temperature_or_zero d)) ds (gpuTemp h),
      diskRead = fold (\<lambda>d xs. push_sample xs (disk_read_bytes_sec (system d))) ds (diskRead h),
      diskWrite = fold (\<lambda>d xs. push_sample xs (disk_write_bytes_sec (system d))) ds (diskWrite h),
      netRx = fold (\<lambda>d xs. push_sample xs (network_rx_bytes_sec (system d))) ds (netRx h),
      netTx = fold (\<lambda>d xs. push_sample xs (network_tx_bytes_sec (system d))) ds (netTx h)\<rparr>"
  by (induction ds arbitrary: h) (simp_all add: updateHistoricalData_def)

lemma length_recent: "length (drop (length ds - 60) (map f ds)) = min (length ds) 60"
  by simp

text \<open>
  Claim C2. Starting from the empty history, after \<open>k\<close> successful polls every one of
  the ten buffers holds exactly the last \<open>min k 60\<close> sampled values, oldest first, so
  its length is \<open>min k 60\<close>; one append never leaves more than 60 values, whatever the
  buffer held, and it drops values from the old end only.
\<close>

theorem rolling_history_most_recent_60:
  "hist_cpu (history_after ds) = drop (length ds - 60) (map (\<lambda>d. cpu_usage (system d)) ds)
   \<and> hist_memory (history_after ds)
       = drop (length ds - 60) (map (\<lambda>d. memory_usage_percent (system d)) ds)
   \<and> hist_swap (history_after ds) = drop (length ds - 60) (map (\<lambda>d. swapPercent (system d)) ds)
   \<and> hist_gpu (history_after ds)
       = drop (length ds - 60) (map (first_gpu_value gpu_utilization) ds)
   \<and> gpuMem (history_after ds)
       = drop (length ds - 60) (map (first_gpu_value memory_utilization) ds)
   \<and> gpuTemp (history_after ds)
       = drop (length ds - 60) (map (first_gpu_value temperature_or_zero) ds)
   \<and> diskRead (history_after ds)
       = drop (length ds - 60) (map (\<lambda>d. disk_read_bytes_sec (system d)) ds)
   \<and> diskWrite (history_after ds)
       = drop (length ds - 60) (map (\<lambda>d. disk_write_bytes_sec (system d)) ds)
   \<and> netRx (history_after ds)
       = drop (length ds - 60) (map (\<lambda>d. network_rx_bytes_sec (system d)) ds)
   \<and> netTx (history_after ds)
       = drop (length ds - 60) (map (\<lambda>d. network_tx_bytes_sec (system d)) ds)
   \<and> length (hist_cpu (history_after ds)) = min (length ds) 60
   \<and> length (hist_memory (history_after ds)) = min (length ds) 60
   \<and> length (hist_swap (history_after ds)) = min (length ds) 60
   \<and> length (hist_gpu (history_after ds)) = min (length ds) 60
   \<and> length (gpuMem (history_after ds)) = min (length ds) 60
   \<and> length (gpuTemp (history_after ds)) = min (length ds) 60
   \<and> length (diskRead (history_after ds)) = min (length ds) 60
   \<and> length (diskWrite (history_after ds)) = min (length ds) 60
   \<and> length (netRx (history_after ds)) = min (length ds) 60
   \<and> length (netTx (history_after ds)) = min (length ds) 60
   \<and> length (push_sample xs v) \<le> 60
   \<and> push_sample xs v = drop (Suc (length xs) - 60) (xs @ [v])"
proof -
  have init: "fold updateHistoricalData ds initialHistoricalData = history_after ds"
    by (simp add: history_after_def)
  have push: "length (push_sample xs v) \<le> 60"
    by (simp add: length_push_sample)
  have evict: "push_sample xs v = drop (Suc (length xs) - 60) (xs @ [v])"
    by (simp add: push_sample_def slice_last_def Suc_diff_le)
  show ?thesis
    unfolding init [symmetric] fold_updateHistoricalData
    using push by (simp add: initialHistoricalData_def fold_push_sample evict o_def min_def)
qed

subsection \<open>The alert evaluator against the rule of the specification\<close>

lemma alerts_spec_rule_other:
  "k \<noteq> m_key m \<Longrightarrow> (k \<in> alerts (spec_rule m st)) = (k \<in> alerts st)"
  by (simp add: spec_rule_def)

lemma fold_spec_rule:
  "distinct (map m_key ms) \<Longrightarrow>
   fold spec_rule ms st =
     \<lparr>alerts = (alerts st \<union> set (map m_key (filter (enters (alerts st)) ms)))
                - set (map m_key (filter (clears (alerts st)) ms)),
      toasts = toasts st @ map m_event (filter (enters (alerts st)) ms)\<rparr>"
proof (induction ms arbitrary: st)
  case Nil
  show ?case by simp
next
  case (Cons m ms)
  from Cons.prems have fresh: "\<forall>x\<in>set ms. m_key x \<noteq> m_key m"
    and dist: "distinct (map m_key ms)"
    by (auto simp add: image_iff)
  have same: "\<And>x. x \<in> set ms \<Longrightarrow> (m_key x \<in> alerts (spec_rule m st)) = (m_key x \<in> alerts st)"
    using fresh by (intro alerts_spec_rule_other) blast
  have e: "filter (enters (alerts (spec_rule m st))) ms = filter (enters (alerts st)) ms"
    by (rule filter_cong) (simp_all add: enters_def same)
  have c: "filter (clears (alerts (spec_rule m st))) ms = filter (clears (alerts st)) ms"
    by (rule filter_cong) (simp_all add: clears_def same)
  have excl: "\<not> (enters (alerts st) m \<and> clears (alerts st) m)"
    by (simp add: enters_def clears_def)
  have ek: "m_key m \<notin> m_key ` set (filter (enters (alerts st)) ms)"
    and ck: "m_key m \<notin> m_key ` set (filter (clears (alerts st)) ms)"
    using fresh by auto
  show ?case
  proof (cases "enters (alerts st) m")
    case True
    with excl have nc: "\<not> clears (alerts st) m" by blast
    show ?thesis
      using True nc ek ck
      by (simp add: Cons.IH [OF dist] e c) (auto simp add: spec_rule_def)
  next
    case False
    show ?thesis
    proof (cases "clears (alerts st) m")
      case True
      show ?thesis
        using False True ek ck
        by (simp add: Cons.IH [OF dist] e c) (auto simp add: spec_rule_def)
    next
      case nc: False
      show ?thesis
        using False nc
        by (simp add: Cons.IH [OF dist] e c) (simp add: spec_rule_def)
    qed
  qed
qed


lemma drop_absent_key: "k \<notin> alerts st \<Longrightarrow> st\<lparr>alerts := alerts st - {k}\<rparr> = st"
  by simp

lemma cpu_alert_spec_at: "cpu_alert th d st = spec_rule (system_tracked_at p th d ! 0) st"
  by (simp add: system_tracked_at_def cpu_alert_def spec_rule_def enters_def clears_def showToast_def)

lemma memory_alert_spec_at: "memory_alert th d st = spec_rule (system_tracked_at p th d ! 1) st"
  by (simp add: system_tracked_at_def memory_alert_def spec_rule_def enters_def clears_def
      showToast_def)

lemma swap_check_spec: "swap_check th p st = spec_rule (system_tracked_at p th d ! 2) st"
  by (simp add: system_tracked_at_def swap_check_def spec_rule_def enters_def clears_def
      showToast_def)

lemma system_tracked_nth_at:
  "system_tracked_at p th d = [system_tracked_at p th d ! 0, system_tracked_at p th d ! 1, system_tracked_at p th d ! 2]"
  by (simp add: system_tracked_at_def)

lemma system_alerts_spec_at:
  "swap_check th p (memory_alert th d (cpu_alert th d st)) = fold spec_rule (system_tracked_at p th d) st"
  by (subst system_tracked_nth_at)
    (simp add: cpu_alert_spec_at [where p = p] memory_alert_spec_at [where p = p]
      swap_check_spec [where d = d])

lemma gpu_alert_spec: "gpu_alert th i g st = spec_rule (gpu_tracked th i g) st"
  by (simp add: gpu_alert_def gpu_tracked_def spec_rule_def enters_def clears_def showToast_def)

lemma gpu_memory_alert_spec: "gpu_memory_alert th i g st = spec_rule (gpu_memory_tracked th i g) st"
  by (simp add: gpu_memory_alert_def gpu_memory_tracked_def spec_rule_def enters_def clears_def
      showToast_def)

lemma temperature_alert_spec:
  "temperature_alert th i g st =
     (case temperature_celsius (current g) of
        None \<Rightarrow> st\<lparr>alerts := alerts st - {''temp-'' @ string_of_nat i}\<rparr>
      | Some t \<Rightarrow> if t \<noteq> 0 \<or> 0 < temperature th then spec_rule (temperature_tracked th i t) st
                  else st\<lparr>alerts := alerts st - {''temp-'' @ string_of_nat i}\<rparr>)"
  by (simp add: temperature_alert_def temperature_tracked_def spec_rule_def enters_def clears_def
      showToast_def split: option.split)

lemma gpu_alerts_spec:
  "gpu_alerts th ig st =
     (let st' = fold spec_rule (device_tracked th ig) st
      in st'\<lparr>alerts := alerts st' - set (device_unread th ig)\<rparr>)"
  by (simp add: gpu_alerts_def device_tracked_def device_unread_def evaluated_reading_def
      gpu_alert_spec gpu_memory_alert_spec temperature_alert_spec Let_def split: option.split)


lemma digit_char_inj: "a < 10 \<Longrightarrow> b < 10 \<Longrightarrow> digit_char a = digit_char b \<longleftrightarrow> a = b"
  unfolding digit_char_def by (rule nth_eq_iff_index_eq) simp_all

lemma string_of_nat_not_Nil [simp]: "string_of_nat n \<noteq> []" "[] \<noteq> string_of_nat n"
  by (subst string_of_nat.simps, simp)+

lemma string_of_nat_inj: "string_of_nat n = string_of_nat m \<Longrightarrow> n = m"
proof (induction n arbitrary: m rule: string_of_nat.induct)
  case (1 n)
  show ?case
  proof (cases "n < 10")
    case True
    show ?thesis
    proof (cases "m < 10")
      case m: True
      with True "1.prems" show ?thesis
        by (simp add: string_of_nat.simps[of n] string_of_nat.simps[of m] digit_char_inj)
    next
      case m: False
      with True "1.prems" show ?thesis
        by (simp add: string_of_nat.simps[of n] string_of_nat.simps[of m])
    qed
  next
    case False
    show ?thesis
    proof (cases "m < 10")
      case m: True
      with False "1.prems" show ?thesis
        by (simp add: string_of_nat.simps[of n] string_of_nat.simps[of m])
    next
      case m: False
      from False m "1.prems" have eq: "string_of_nat (n div 10) = string_of_nat (m div 10)"
        and d: "digit_char (n mod 10) = digit_char (m mod 10)"
        by (simp_all add: string_of_nat.simps[of n] string_of_nat.simps[of m])
      from "1.IH"[OF False eq] have "n div 10 = m div 10" .
      moreover from d have "n mod 10 = m mod 10" by (simp add: digit_char_inj)
      ultimately show ?thesis by (metis div_mult_mod_eq)
    qed
  qed
qed

lemma string_of_nat_eq_iff [simp]: "string_of_nat n = string_of_nat m \<longleftrightarrow> n = m"
  by (auto dest: string_of_nat_inj)

lemma device_keys_disjoint: "i \<noteq> j \<Longrightarrow> device_keys i \<inter> device_keys j = {}"
  by (simp add: device_keys_def)

lemma system_keys_not_device:
  "''cpu'' \<notin> device_keys i" "''memory'' \<notin> device_keys i" "''swap'' \<notin> device_keys i"
  by (simp_all add: device_keys_def)

lemma device_tracked_keys: "m_key ` set (device_tracked th ig) \<subseteq> device_keys (fst ig)"
  by (auto simp add: device_tracked_def device_keys_def gpu_tracked_def gpu_memory_tracked_def
      temperature_tracked_def split: option.splits if_splits)

lemma device_unread_keys: "set (device_unread th ig) \<subseteq> device_keys (fst ig)"
  by (simp add: device_unread_def device_keys_def)

lemma device_unread_not_tracked: "set (device_unread th ig) \<inter> m_key ` set (device_tracked th ig) = {}"
  by (auto simp add: device_unread_def device_tracked_def evaluated_reading_def gpu_tracked_def
      gpu_memory_tracked_def temperature_tracked_def split: option.splits if_splits)

lemma device_tracked_distinct: "distinct (map m_key (device_tracked th ig))"
  by (cases "temperature_celsius (current (snd ig))")
    (simp_all add: device_tracked_def gpu_tracked_def gpu_memory_tracked_def
      temperature_tracked_def)

lemma enumerate_range_Cons: "{n..<n + length (g # gs)} = insert n {Suc n..<Suc n + length gs}"
  by auto

lemma later_tracked_keys:
  "m_key ` set (concat (map (device_tracked th) (enumerate n gs))) \<subseteq> (\<Union>j\<in>{n..<n + length gs}. device_keys j)"
proof (induction gs arbitrary: n)
  case Nil
  show ?case by simp
next
  case (Cons g gs)
  have a: "m_key ` set (device_tracked th (n, g)) \<subseteq> device_keys n"
    using device_tracked_keys [of th "(n, g)"] by (simp only: fst_conv)
  have b: "m_key ` set (concat (map (device_tracked th) (enumerate (Suc n) gs)))
             \<subseteq> (\<Union>j\<in>{Suc n..<Suc n + length gs}. device_keys j)"
    by (rule Cons.IH)
  have "m_key ` set (concat (map (device_tracked th) (enumerate n (g # gs))))
          = m_key ` set (device_tracked th (n, g))
            \<union> m_key ` set (concat (map (device_tracked th) (enumerate (Suc n) gs)))"
    by (simp only: enumerate_simps list.map concat.simps set_append image_Un)
  also have "\<dots> \<subseteq> device_keys n \<union> (\<Union>j\<in>{Suc n..<Suc n + length gs}. device_keys j)"
    using a b by (rule Un_mono)
  also have "\<dots> = (\<Union>j\<in>{n..<n + length (g # gs)}. device_keys j)"
    by (simp only: enumerate_range_Cons UN_insert)
  finally show ?case .
qed

lemma later_unread_keys:
  "set (concat (map (device_unread th) (enumerate n gs))) \<subseteq> (\<Union>j\<in>{n..<n + length gs}. device_keys j)"
proof (induction gs arbitrary: n)
  case Nil
  show ?case by simp
next
  case (Cons g gs)
  have a: "set (device_unread th (n, g)) \<subseteq> device_keys n"
    using device_unread_keys [of th "(n, g)"] by (simp only: fst_conv)
  have b: "set (concat (map (device_unread th) (enumerate (Suc n) gs)))
             \<subseteq> (\<Union>j\<in>{Suc n..<Suc n + length gs}. device_keys j)"
    by (rule Cons.IH)
  have "set (concat (map (device_unread th) (enumerate n (g # gs))))
          = set (device_unread th (n, g)) \<union> set (concat (map (device_unread th) (enumerate (Suc n) gs)))"
    by (simp only: enumerate_simps list.map concat.simps set_append)
  also have "\<dots> \<subseteq> device_keys n \<union> (\<Union>j\<in>{Suc n..<Suc n + length gs}. device_keys j)"
    using a b by (rule Un_mono)
  also have "\<dots> = (\<Union>j\<in>{n..<n + length (g # gs)}. device_keys j)"
    by (simp only: enumerate_range_Cons UN_insert)
  finally show ?case .
qed

lemma device_keys_later: "device_keys n \<inter> (\<Union>j\<in>{Suc n..<m}. device_keys j) = {}"
  by (auto simp add: device_keys_def)


lemma devices_tracked_distinct:
  "distinct (map m_key (concat (map (device_tracked th) (enumerate n gs))))"
proof (induction gs arbitrary: n)
  case Nil
  show ?case by simp
next
  case (Cons g gs)
  have a: "m_key ` set (device_tracked th (n, g)) \<subseteq> device_keys n"
    using device_tracked_keys [of th "(n, g)"] by (simp only: fst_conv)
  have b: "m_key ` set (concat (map (device_tracked th) (enumerate (Suc n) gs)))
             \<subseteq> (\<Union>j\<in>{Suc n..<Suc n + length gs}. device_keys j)"
    by (rule later_tracked_keys)
  from a b device_keys_later [of n "Suc n + length gs"]
  have disj: "m_key ` set (device_tracked th (n, g))
                \<inter> m_key ` set (concat (map (device_tracked th) (enumerate (Suc n) gs))) = {}"
    by blast
  have "map m_key (concat (map (device_tracked th) (enumerate n (g # gs))))
          = map m_key (device_tracked th (n, g))
            @ map m_key (concat (map (device_tracked th) (enumerate (Suc n) gs)))"
    by (simp only: enumerate_simps list.map concat.simps map_append)
  moreover have "distinct (map m_key (device_tracked th (n, g))
            @ map m_key (concat (map (device_tracked th) (enumerate (Suc n) gs))))"
    using disj Cons.IH [of "Suc n"] device_tracked_distinct [of th "(n, g)"]
    by (simp only: distinct_append set_map simp_thms)
  ultimately show ?case by simp
qed

lemma system_tracked_keys_at: "map m_key (system_tracked_at p th d) = [''cpu'', ''memory'', ''swap'']"
  by (simp add: system_tracked_at_def)

lemma tracked_metrics_distinct_at: "distinct (map m_key (tracked_metrics_at p th d))"
proof -
  have b: "m_key ` set (concat (map (device_tracked th) (enumerate 0 (gpus d))))
             \<subseteq> (\<Union>j\<in>{0..<0 + length (gpus d)}. device_keys j)"
    by (rule later_tracked_keys)
  have c: "set [''cpu'', ''memory'', ''swap''] \<inter> (\<Union>j\<in>{0..<0 + length (gpus d)}. device_keys j) = {}"
    using system_keys_not_device by auto
  from b c have disj: "set [''cpu'', ''memory'', ''swap'']
      \<inter> m_key ` set (concat (map (device_tracked th) (enumerate 0 (gpus d)))) = {}"
    by blast
  have "distinct ([''cpu'', ''memory'', ''swap'']
          @ map m_key (concat (map (device_tracked th) (enumerate 0 (gpus d)))))"
    using disj devices_tracked_distinct [of th 0 "gpus d"]
    by (simp add: distinct_append)
  then show ?thesis
    by (simp only: tracked_metrics_at_def map_append system_tracked_keys_at)
qed

lemma spec_rule_drop_keys:
  "m_key m \<notin> K \<Longrightarrow>
   spec_rule m (st\<lparr>alerts := alerts st - K\<rparr>)
     = (spec_rule m st)\<lparr>alerts := alerts (spec_rule m st) - K\<rparr>"
  by (rule alert_state.equality) (auto simp add: spec_rule_def enters_def clears_def)

lemma fold_spec_rule_drop_keys:
  "m_key ` set ms \<inter> K = {} \<Longrightarrow>
   fold spec_rule ms (st\<lparr>alerts := alerts st - K\<rparr>)
     = (fold spec_rule ms st)\<lparr>alerts := alerts (fold spec_rule ms st) - K\<rparr>"
proof (induction ms arbitrary: st)
  case Nil
  show ?case by simp
next
  case (Cons m ms)
  from Cons.prems have k: "m_key m \<notin> K" and rest: "m_key ` set ms \<inter> K = {}" by auto
  show ?case
    by (simp add: spec_rule_drop_keys [OF k] Cons.IH [OF rest])
qed

lemma fold_gpu_alerts:
  "fold (gpu_alerts th) (enumerate n gs) st =
     (fold spec_rule (concat (map (device_tracked th) (enumerate n gs))) st)
       \<lparr>alerts := alerts (fold spec_rule (concat (map (device_tracked th) (enumerate n gs))) st)
                   - set (concat (map (device_unread th) (enumerate n gs)))\<rparr>"
proof (induction gs arbitrary: n st)
  case Nil
  show ?case by simp
next
  case (Cons g gs)
  let ?D = "device_tracked th (n, g)"
  let ?U = "set (device_unread th (n, g))"
  let ?Ds = "concat (map (device_tracked th) (enumerate (Suc n) gs))"
  let ?Us = "set (concat (map (device_unread th) (enumerate (Suc n) gs)))"
  have u: "?U \<subseteq> device_keys n"
    using device_unread_keys [of th "(n, g)"] by (simp only: fst_conv)
  have b: "m_key ` set ?Ds \<subseteq> (\<Union>j\<in>{Suc n..<Suc n + length gs}. device_keys j)"
    by (rule later_tracked_keys)
  from u b device_keys_later [of n "Suc n + length gs"]
  have disj: "m_key ` set ?Ds \<inter> ?U = {}" by blast
  define st1 where "st1 = fold spec_rule ?D st"
  have step: "gpu_alerts th (n, g) st = st1\<lparr>alerts := alerts st1 - ?U\<rparr>"
    by (simp add: gpu_alerts_spec st1_def Let_def)
  have "fold (gpu_alerts th) (enumerate n (g # gs)) st
          = fold (gpu_alerts th) (enumerate (Suc n) gs) (st1\<lparr>alerts := alerts st1 - ?U\<rparr>)"
    by (simp add: step)
  also have "\<dots> = (fold spec_rule ?Ds (st1\<lparr>alerts := alerts st1 - ?U\<rparr>))
       \<lparr>alerts := alerts (fold spec_rule ?Ds (st1\<lparr>alerts := alerts st1 - ?U\<rparr>)) - ?Us\<rparr>"
    by (rule Cons.IH)
  also have "fold spec_rule ?Ds (st1\<lparr>alerts := alerts st1 - ?U\<rparr>)
       = (fold spec_rule ?Ds st1)\<lparr>alerts := alerts (fold spec_rule ?Ds st1) - ?U\<rparr>"
    by (rule fold_spec_rule_drop_keys [OF disj])
  finally show ?case
    by (simp add: st1_def Diff_eq Int_assoc Un_commute Int_commute Int_left_commute) 
qed

lemma checkThresholds_fold_at:
  "checkThresholds_at p th d st =
     (fold spec_rule (tracked_metrics_at p th d) st)
       \<lparr>alerts := alerts (fold spec_rule (tracked_metrics_at p th d) st)
                   - set (unread_temperature_keys th d)\<rparr>"
  by (simp only: checkThresholds_at_def system_alerts_spec_at fold_gpu_alerts tracked_metrics_at_def
      unread_temperature_keys_def fold_append o_apply)

lemma checkThresholds_char_at:
  "checkThresholds_at p th d st =
     \<lparr>alerts = ((alerts st \<union> set (map m_key (filter (enters (alerts st)) (tracked_metrics_at p th d))))
                 - set (map m_key (filter (clears (alerts st)) (tracked_metrics_at p th d))))
                - set (unread_temperature_keys th d),
      toasts = toasts st @ map m_event (filter (enters (alerts st)) (tracked_metrics_at p th d))\<rparr>"
  by (simp add: checkThresholds_fold_at fold_spec_rule [OF tracked_metrics_distinct_at])

lemma system_keys_set_at: "m_key ` set (system_tracked_at p th d) = {''cpu'', ''memory'', ''swap''}"
  using arg_cong [OF system_tracked_keys_at [of p th d], of set] by simp

lemma system_keys_not_later:
  "{''cpu'', ''memory'', ''swap''} \<inter> (\<Union>j\<in>{n..<m}. device_keys j) = {}"
  by (simp add: device_keys_def)

lemma disjoint_parts:
  "U \<subseteq> K \<Longrightarrow> T \<subseteq> K \<Longrightarrow> Us \<subseteq> L \<Longrightarrow> Ts \<subseteq> L \<Longrightarrow> K \<inter> L = {} \<Longrightarrow>
   U \<inter> T = {} \<Longrightarrow> Us \<inter> Ts = {} \<Longrightarrow> (U \<union> Us) \<inter> (T \<union> Ts) = {}"
  by blast

lemma devices_unread_not_tracked:
  "set (concat (map (device_unread th) (enumerate n gs)))
     \<inter> m_key ` set (concat (map (device_tracked th) (enumerate n gs))) = {}"
proof (induction gs arbitrary: n)
  case Nil
  show ?case by simp
next
  case (Cons g gs)
  let ?U = "set (device_unread th (n, g))"
  let ?T = "m_key ` set (device_tracked th (n, g))"
  let ?Us = "set (concat (map (device_unread th) (enumerate (Suc n) gs)))"
  let ?Ts = "m_key ` set (concat (map (device_tracked th) (enumerate (Suc n) gs)))"
  let ?L = "\<Union>j\<in>{Suc n..<Suc n + length gs}. device_keys j"
  have u: "?U \<subseteq> device_keys n"
    using device_unread_keys [of th "(n, g)"] by (simp only: fst_conv)
  have t: "?T \<subseteq> device_keys n"
    using device_tracked_keys [of th "(n, g)"] by (simp only: fst_conv)
  have us: "?Us \<subseteq> ?L" by (rule later_unread_keys)
  have ts: "?Ts \<subseteq> ?L" by (rule later_tracked_keys)
  have far: "device_keys n \<inter> ?L = {}" by (rule device_keys_later)
  have 1: "?U \<inter> ?T = {}" by (rule device_unread_not_tracked)
  have 4: "?Us \<inter> ?Ts = {}" by (rule Cons.IH)
  have eqU: "set (concat (map (device_unread th) (enumerate n (g # gs)))) = ?U \<union> ?Us"
    by (simp only: enumerate_simps list.map concat.simps set_append)
  have eqT: "m_key ` set (concat (map (device_tracked th) (enumerate n (g # gs)))) = ?T \<union> ?Ts"
    by (simp only: enumerate_simps list.map concat.simps set_append image_Un)
  show ?case
    unfolding eqU eqT by (rule disjoint_parts [OF u t us ts far 1 4])
qed


lemma disjoint_sys:
  "U \<subseteq> L \<Longrightarrow> S \<inter> L = {} \<Longrightarrow> U \<inter> T = {} \<Longrightarrow> U \<inter> (S \<union> T) = {}"
  by blast

lemma unread_not_tracked_at:
  "set (unread_temperature_keys th d) \<inter> m_key ` set (tracked_metrics_at p th d) = {}"
proof -
  let ?L = "\<Union>j\<in>{0..<0 + length (gpus d)}. device_keys j"
  have us: "set (unread_temperature_keys th d) \<subseteq> ?L"
    unfolding unread_temperature_keys_def by (rule later_unread_keys)
  have sys: "m_key ` set (system_tracked_at p th d) \<inter> ?L = {}"
    unfolding system_keys_set_at by (rule system_keys_not_later)
  have dev: "set (unread_temperature_keys th d)
      \<inter> m_key ` set (concat (map (device_tracked th) (enumerate 0 (gpus d)))) = {}"
    unfolding unread_temperature_keys_def by (rule devices_unread_not_tracked)
  have eq: "m_key ` set (tracked_metrics_at p th d)
      = m_key ` set (system_tracked_at p th d)
        \<union> m_key ` set (concat (map (device_tracked th) (enumerate 0 (gpus d))))"
    by (simp only: tracked_metrics_at_def set_append image_Un)
  show ?thesis
    unfolding eq by (rule disjoint_sys [OF us sys dev])
qed

lemma tracked_key_unique_at:
  "m \<in> set (tracked_metrics_at p th d) \<Longrightarrow> m' \<in> set (tracked_metrics_at p th d) \<Longrightarrow>
   m_key m' = m_key m \<Longrightarrow> m' = m"
  using tracked_metrics_distinct_at [of p th d] by (simp add: distinct_map inj_on_def)


lemma key_in_filter:
  assumes "m \<in> set ms" and "\<forall>m'\<in>set ms. m_key m' = m_key m \<longrightarrow> m' = m"
  shows "(m_key m \<in> set (map m_key (filter P ms))) = P m"
  using assms by auto

lemma member_after:
  "k \<notin> U \<Longrightarrow> (k \<in> E) = e \<Longrightarrow> (k \<in> C) = c \<Longrightarrow> \<not> (e \<and> c) \<Longrightarrow>
   (k \<in> (A \<union> E) - C - U) = (if e then True else if c then False else k \<in> A)"
  by auto

lemma alerts_checkThresholds_at:
  "alerts (checkThresholds_at p th d st) =
     ((alerts st \<union> set (map m_key (filter (enters (alerts st)) (tracked_metrics_at p th d))))
        - set (map m_key (filter (clears (alerts st)) (tracked_metrics_at p th d))))
       - set (unread_temperature_keys th d)"
  by (subst checkThresholds_char_at) (simp only: alert_state.select_convs)

lemma toasts_checkThresholds_at:
  "toasts (checkThresholds_at p th d st) =
     toasts st @ map m_event (filter (enters (alerts st)) (tracked_metrics_at p th d))"
  by (subst checkThresholds_char_at) (simp only: alert_state.select_convs)

lemma alerts_after_tracked_at:
  assumes "m \<in> set (tracked_metrics_at p th d)"
  shows "(m_key m \<in> alerts (checkThresholds_at p th d st)) =
           (if enters (alerts st) m then True
            else if clears (alerts st) m then False
            else m_key m \<in> alerts st)"
proof -
  let ?ms = "tracked_metrics_at p th d"
  have uniq: "\<forall>m'\<in>set ?ms. m_key m' = m_key m \<longrightarrow> m' = m"
    using tracked_key_unique_at [OF assms] by blast
  have nu: "m_key m \<notin> set (unread_temperature_keys th d)"
    using unread_not_tracked_at [of th d p] assms by blast
  have x: "\<not> (enters (alerts st) m \<and> clears (alerts st) m)"
    by (simp add: enters_def clears_def)
  show ?thesis
    unfolding alerts_checkThresholds_at
    by (rule member_after [OF nu
          key_in_filter [where P = "enters (alerts st)", OF assms uniq]
          key_in_filter [where P = "clears (alerts st)", OF assms uniq] x])
qed

lemma alerts_after_unread_at:
  "k \<in> set (unread_temperature_keys th d) \<Longrightarrow> k \<notin> alerts (checkThresholds_at p th d st)"
  unfolding alerts_checkThresholds_at by blast

lemma alerts_after_other_at:
  "k \<notin> m_key ` set (tracked_metrics_at p th d) \<Longrightarrow> k \<notin> set (unread_temperature_keys th d) \<Longrightarrow>
   (k \<in> alerts (checkThresholds_at p th d st)) = (k \<in> alerts st)"
  unfolding alerts_checkThresholds_at by auto

lemma enumerate_member: "i < length gs \<Longrightarrow> (i, gs ! i) \<in> set (enumerate 0 gs)"
  by (simp add: in_set_enumerate_eq)

lemma device_in_tracked_at:
  "i < length (gpus d) \<Longrightarrow>
   set (device_tracked th (i, gpus d ! i)) \<subseteq> set (tracked_metrics_at p th d)"
  using enumerate_member [of i "gpus d"] by (auto simp add: tracked_metrics_at_def)

lemma device_in_unread:
  "i < length (gpus d) \<Longrightarrow>
   set (device_unread th (i, gpus d ! i)) \<subseteq> set (unread_temperature_keys th d)"
  using enumerate_member [of i "gpus d"] by (auto simp add: unread_temperature_keys_def)

lemma system_in_tracked_at: "set (system_tracked_at p th d) \<subseteq> set (tracked_metrics_at p th d)"
  by (simp add: tracked_metrics_at_def)

lemma device_severity:
  "m \<in> set (device_tracked th ig) \<Longrightarrow>
   toast_type (m_event m) = (if take 5 (m_key m) = ''temp-'' then ''error'' else ''warning'')"
  by (cases "temperature_celsius (current (snd ig))")
    (auto simp add: device_tracked_def gpu_tracked_def gpu_memory_tracked_def
      temperature_tracked_def split: if_splits)

lemma system_severity_at:
  "m \<in> set (system_tracked_at p th d) \<Longrightarrow>
   toast_type (m_event m) = (if take 5 (m_key m) = ''temp-'' then ''error'' else ''warning'')"
  by (auto simp add: system_tracked_at_def)

lemma tracked_severity_at:
  "m \<in> set (tracked_metrics_at p th d) \<Longrightarrow>
   toast_type (m_event m) = (if take 5 (m_key m) = ''temp-'' then ''error'' else ''warning'')"
  unfolding tracked_metrics_at_def using system_severity_at device_severity by auto


lemma swap_alert_check: "swap_alert th d st = swap_check th (swapPercent (system d)) st"
  by (simp add: swap_alert_def swap_check_def)

lemma checkThresholds_at_swapPercent:
  "checkThresholds th d st = checkThresholds_at (swapPercent (system d)) th d st"
  by (simp only: checkThresholds_def checkThresholds_at_def swap_alert_check)

lemma alerts_after_tracked:
  assumes "m \<in> set (tracked_metrics th d)"
  shows "(m_key m \<in> alerts (checkThresholds th d st)) =
           (if enters (alerts st) m then True
            else if clears (alerts st) m then False
            else m_key m \<in> alerts st)"
  using assms unfolding tracked_metrics_def checkThresholds_at_swapPercent
  by (rule alerts_after_tracked_at)

lemma alerts_after_unread:
  "k \<in> set (unread_temperature_keys th d) \<Longrightarrow> k \<notin> alerts (checkThresholds th d st)"
  unfolding checkThresholds_at_swapPercent by (rule alerts_after_unread_at)

lemma unread_not_tracked:
  "set (unread_temperature_keys th d) \<inter> m_key ` set (tracked_metrics th d) = {}"
  unfolding tracked_metrics_def by (rule unread_not_tracked_at)

lemma device_in_tracked:
  "i < length (gpus d) \<Longrightarrow>
   set (device_tracked th (i, gpus d ! i)) \<subseteq> set (tracked_metrics th d)"
  unfolding tracked_metrics_def by (rule device_in_tracked_at)

lemma string_of_nat_digit: "n < 10 \<Longrightarrow> string_of_nat n = [digit_char n]"
  by (simp add: string_of_nat.simps)

lemma string_of_nat_two_digits:
  "10 \<le> n \<Longrightarrow> n < 100 \<Longrightarrow> string_of_nat n = [digit_char (n div 10), digit_char (n mod 10)]"
  by (simp add: string_of_nat.simps [of n] string_of_nat_digit)

lemmas digits = string_of_nat_digit string_of_nat_two_digits digit_char_def

lemmas evaluator_defs =
  checkThresholds_def checkThresholds_at_def swap_check_def cpu_alert_def memory_alert_def
  swap_alert_def gpu_alerts_def gpu_alert_def gpu_memory_alert_def temperature_alert_def
  showToast_def swapPercent_def

lemmas example_defs =
  DEFAULT_THRESHOLDS_def gpu_snapshot_def gpu_reading_def cpu_reading_def idle_system_def
  no_alerts_def

lemmas tracked_defs =
  tracked_metrics_def tracked_metrics_at_def system_tracked_def system_tracked_at_def
  unread_temperature_keys_def device_unread_def evaluated_reading_def device_tracked_def
  gpu_tracked_def gpu_memory_tracked_def temperature_tracked_def enters_def clears_def
  swapPercent_def

lemma enters_empty: "enters {} m = (m_limit m \<le> m_value m)"
  by (simp add: enters_def)

text \<open>
  Claim C1, as amended. The evaluator compares with a threshold the CPU, memory and swap
  usage and, for every GPU, its utilization, its memory utilization and its temperature.
  For each of these metrics one evaluation of a snapshot follows the rule: the metric
  enters the alert state when its value is at or above the threshold and its key is not
  active (one event is shown and the key becomes active); it clears when the value is
  below 0.9 times the threshold and the key is active (the key is removed, no event);
  otherwise its key stays as it was and nothing is shown. The events shown are exactly
  those of the entering metrics, in the order of evaluation; an event is of type
  \<open>error\<close> for a temperature and of type \<open>warning\<close> for every other metric. The keys of
  the metrics are pairwise distinct, and a key of no metric is left as it was, except
  that the temperature key of a GPU whose temperature is not covered is removed. The
  temperature of a GPU is covered when the reading is present and, for a reading of 0,
  when the temperature threshold is positive.

  The statement holds for every number \<open>p\<close> that the evaluation computes as the swap
  percentage. The text of the events is that of the rule when every value is below
  \<open>10\<^sup>2\<^sup>1\<close> in magnitude, the range in which \<open>toFixed0\<close> is \<^verbatim>\<open>toFixed(0)\<close>.
\<close>

theorem evaluator_follows_rule:
  "alerts (checkThresholds_at p th d st)
     = ((alerts st \<union> set (map m_key (filter (enters (alerts st)) (tracked_metrics_at p th d))))
          - set (map m_key (filter (clears (alerts st)) (tracked_metrics_at p th d))))
       - set (unread_temperature_keys th d)
   \<and> map toast_type (toasts (checkThresholds_at p th d st))
       = map toast_type (toasts st)
         @ map (\<lambda>m. toast_type (m_event m))
             (filter (enters (alerts st)) (tracked_metrics_at p th d))
   \<and> ((\<forall>m\<in>set (tracked_metrics_at p th d). \<bar>m_value m\<bar> < 10 ^ 21)
        \<longrightarrow> toasts (checkThresholds_at p th d st)
              = toasts st @ map m_event (filter (enters (alerts st)) (tracked_metrics_at p th d)))
   \<and> distinct (map m_key (tracked_metrics_at p th d))
   \<and> set (unread_temperature_keys th d) \<inter> m_key ` set (tracked_metrics_at p th d) = {}
   \<and> (\<forall>m\<in>set (tracked_metrics_at p th d).
         (m_key m \<in> alerts (checkThresholds_at p th d st))
           = (if enters (alerts st) m then True
              else if clears (alerts st) m then False
              else m_key m \<in> alerts st)
         \<and> toast_type (m_event m)
             = (if take 5 (m_key m) = ''temp-'' then ''error'' else ''warning''))
   \<and> set (system_tracked_at p th d) \<subseteq> set (tracked_metrics_at p th d)
   \<and> (\<forall>i<length (gpus d).
         gpu_tracked th i (gpus d ! i) \<in> set (tracked_metrics_at p th d)
         \<and> gpu_memory_tracked th i (gpus d ! i) \<in> set (tracked_metrics_at p th d)
         \<and> (\<forall>t. temperature_celsius (current (gpus d ! i)) = Some t
                  \<and> (t \<noteq> 0 \<or> 0 < temperature th)
               \<longrightarrow> temperature_tracked th i t \<in> set (tracked_metrics_at p th d)))"
proof -
  have dev: "gpu_tracked th i (gpus d ! i) \<in> set (tracked_metrics_at p th d)
         \<and> gpu_memory_tracked th i (gpus d ! i) \<in> set (tracked_metrics_at p th d)
         \<and> (\<forall>t. temperature_celsius (current (gpus d ! i)) = Some t
                  \<and> (t \<noteq> 0 \<or> 0 < temperature th)
               \<longrightarrow> temperature_tracked th i t \<in> set (tracked_metrics_at p th d))"
    if "i < length (gpus d)" for i
    using device_in_tracked_at [OF that, of th p] by (auto simp add: device_tracked_def)
  have ty: "map toast_type (toasts (checkThresholds_at p th d st))
       = map toast_type (toasts st)
         @ map (\<lambda>m. toast_type (m_event m))
             (filter (enters (alerts st)) (tracked_metrics_at p th d))"
    by (simp add: toasts_checkThresholds_at o_def)
  have each: "\<forall>m\<in>set (tracked_metrics_at p th d).
         (m_key m \<in> alerts (checkThresholds_at p th d st))
           = (if enters (alerts st) m then True
              else if clears (alerts st) m then False
              else m_key m \<in> alerts st)
         \<and> toast_type (m_event m)
             = (if take 5 (m_key m) = ''temp-'' then ''error'' else ''warning'')"
    using alerts_after_tracked_at [of _ p th d st] tracked_severity_at [of _ p th d] by blast
  show ?thesis
    using dev ty each alerts_checkThresholds_at [of p th d st]
      toasts_checkThresholds_at [of p th d st] tracked_metrics_distinct_at [of p th d]
      unread_not_tracked_at [of th d p] system_in_tracked_at [of p th d]
    by blast
qed

theorem evaluator_follows_rule_witness:
  "toasts (checkThresholds_at 0 DEFAULT_THRESHOLDS (gpu_snapshot [gpu_reading 0 95 (Some 90)])
             no_alerts)
     = [\<lparr>toast_type = ''warning'', message = ''GPU at 95%'', duration = 5000\<rparr>,
        \<lparr>toast_type = ''error'', message = ''GPU temp: 90'' @ degree_sign @ ''C'',
         duration = 5000\<rparr>]
   \<and> alerts (checkThresholds_at 0 DEFAULT_THRESHOLDS (gpu_snapshot [gpu_reading 0 95 (Some 90)])
               no_alerts)
     = {''gpu-0'', ''temp-0''}"
  using evaluator_follows_rule
    [of 0 DEFAULT_THRESHOLDS "gpu_snapshot [gpu_reading 0 95 (Some 90)]" no_alerts]
  by (simp add: tracked_defs example_defs toFixed0_def digits)

text \<open>
  Claim C1 as stated fails for a temperature reading of 0 against a stored temperature
  threshold of 0: the value is at the threshold and the key is not active, yet the
  evaluation shows no event and leaves the active set empty.
\<close>

theorem zero_temperature_at_zero_threshold_shows_nothing:
  "temperature_celsius (current (gpu_reading 0 0 (Some 0))) = Some 0
   \<and> (0::real) \<ge> temperature (DEFAULT_THRESHOLDS\<lparr>temperature := 0\<rparr>)
   \<and> ''temp-0'' \<notin> alerts no_alerts
   \<and> checkThresholds (DEFAULT_THRESHOLDS\<lparr>temperature := 0\<rparr>)
         (gpu_snapshot [gpu_reading 0 0 (Some 0)]) no_alerts = no_alerts"
  by (simp add: evaluator_defs example_defs digits)

text \<open>
  Claim C3, as amended. With the default CPU threshold of 90 and no active alert, the
  CPU values 95, 95, 85, 95 show one event, at the first 95: 85 is not below 81, so the
  alert stays active and the last 95 shows nothing. The values 95, 80, 95 show two
  events: 80 clears the alert without an event, and the last 95 enters again.
\<close>

theorem hysteresis_on_cpu_sequences:
  "cpu DEFAULT_THRESHOLDS = 90
   \<and> toasts (evaluate_all DEFAULT_THRESHOLDS (map cpu_reading [95]) no_alerts)
       = [\<lparr>toast_type = ''warning'', message = ''CPU critical: 95%'', duration = 5000\<rparr>]
   \<and> toasts (evaluate_all DEFAULT_THRESHOLDS (map cpu_reading [95, 95]) no_alerts)
       = [\<lparr>toast_type = ''warning'', message = ''CPU critical: 95%'', duration = 5000\<rparr>]
   \<and> toasts (evaluate_all DEFAULT_THRESHOLDS (map cpu_reading [95, 95, 85]) no_alerts)
       = [\<lparr>toast_type = ''warning'', message = ''CPU critical: 95%'', duration = 5000\<rparr>]
   \<and> alerts (evaluate_all DEFAULT_THRESHOLDS (map cpu_reading [95, 95, 85]) no_alerts) = {''cpu''}
   \<and> toasts (evaluate_all DEFAULT_THRESHOLDS (map cpu_reading [95, 95, 85, 95]) no_alerts)
       = [\<lparr>toast_type = ''warning'', message = ''CPU critical: 95%'', duration = 5000\<rparr>]
   \<and> toasts (evaluate_all DEFAULT_THRESHOLDS (map cpu_reading [95, 80]) no_alerts)
       = [\<lparr>toast_type = ''warning'', message = ''CPU critical: 95%'', duration = 5000\<rparr>]
   \<and> alerts (evaluate_all DEFAULT_THRESHOLDS (map cpu_reading [95, 80]) no_alerts) = {}
   \<and> toasts (evaluate_all DEFAULT_THRESHOLDS (map cpu_reading [95, 80, 95]) no_alerts)
       = [\<lparr>toast_type = ''warning'', message = ''CPU critical: 95%'', duration = 5000\<rparr>,
          \<lparr>toast_type = ''warning'', message = ''CPU critical: 95%'', duration = 5000\<rparr>]
   \<and> alerts (evaluate_all DEFAULT_THRESHOLDS (map cpu_reading [95, 80, 95]) no_alerts) = {''cpu''}"
  by (simp add: evaluate_all_def evaluator_defs example_defs toFixed0_def digits)

text \<open>
  Claim C3 as stated expects two events for 95, 95, 85, 95; the evaluator shows one.
\<close>

theorem hysteresis_no_reentry_after_85:
  "length (toasts (evaluate_all DEFAULT_THRESHOLDS (map cpu_reading [95, 95, 85, 95]) no_alerts))
     = 1"
  by (simp add: evaluate_all_def evaluator_defs example_defs)

lemma swap_in_tracked: "system_tracked th d ! 2 \<in> set (tracked_metrics th d)"
  by (simp add: tracked_metrics_def tracked_metrics_at_def system_tracked_def
      system_tracked_at_def)

text \<open>
  Claim C6, as amended. When the total swap is 0 the swap percentage is 0, and for
  every positive swap threshold the check of the swap metric shows no event and the key
  \<open>swap\<close> is not active after the evaluation, whatever the active set was.
\<close>

theorem swap_absent_never_alerts:
  assumes "swap_total_mb (system d) = 0" and "0 < swap th"
  shows "swapPercent (system d) = 0
    \<and> ''swap'' \<notin> alerts (checkThresholds th d st)
    \<and> swap_alert th d st' = st'\<lparr>alerts := alerts st' - {''swap''}\<rparr>"
proof -
  have p: "swapPercent (system d) = 0"
    using assms(1) by (simp add: swapPercent_def)
  have k: "''swap'' \<notin> alerts (checkThresholds th d st)"
    using alerts_after_tracked [OF swap_in_tracked [of th d], of st] assms(2) p
    by (simp add: system_tracked_def system_tracked_at_def enters_def clears_def)
  have b: "swap_alert th d st' = st'\<lparr>alerts := alerts st' - {''swap''}\<rparr>"
    using assms(2) p by (simp add: swap_alert_def)
  from p k b show ?thesis by simp
qed

theorem swap_absent_never_alerts_witness:
  "swapPercent (system (cpu_reading 50)) = 0
   \<and> ''swap'' \<notin> alerts (checkThresholds DEFAULT_THRESHOLDS (cpu_reading 50)
                            \<lparr>alerts = {''swap''}, toasts = []\<rparr>)
   \<and> swap_alert DEFAULT_THRESHOLDS (cpu_reading 50) \<lparr>alerts = {''swap''}, toasts = []\<rparr>
       = no_alerts"
  using swap_absent_never_alerts [of "cpu_reading 50" DEFAULT_THRESHOLDS
      "\<lparr>alerts = {''swap''}, toasts = []\<rparr>" "\<lparr>alerts = {''swap''}, toasts = []\<rparr>"]
  by (simp add: example_defs)

text \<open>
  Claim C6 as stated holds for no threshold at or below 0: with the threshold 0 and
  no swap, the percentage 0 is at the threshold and the key \<open>swap\<close> becomes active.
\<close>

theorem swap_absent_alerts_at_threshold_zero:
  "swap_total_mb (system (cpu_reading 0)) = 0
   \<and> ''swap'' \<in> alerts (checkThresholds (DEFAULT_THRESHOLDS\<lparr>swap := 0\<rparr>) (cpu_reading 0)
                           no_alerts)"
  by (simp add: evaluator_defs example_defs)

lemma unread_member:
  "i < length (gpus d) \<Longrightarrow>
   \<not> evaluated_reading th (temperature_celsius (current (gpus d ! i))) \<Longrightarrow>
   (''temp-'' @ string_of_nat i) \<in> set (unread_temperature_keys th d)"
  using device_in_unread [of i d th] by (simp add: device_unread_def)

text \<open>
  Claim C7, as amended. For a GPU whose temperature reading is missing, the temperature
  check shows no event and removes the key of that device from the active set; no
  tracked metric of the snapshot has that key, so no event of the evaluation belongs to
  it, and the key is not active after the evaluation.
\<close>

theorem missing_temperature_clears_key:
  assumes "i < length (gpus d)" and "temperature_celsius (current (gpus d ! i)) = None"
  shows "temperature_alert th i (gpus d ! i) st'
           = st'\<lparr>alerts := alerts st' - {''temp-'' @ string_of_nat i}\<rparr>
    \<and> (''temp-'' @ string_of_nat i) \<notin> m_key ` set (tracked_metrics th d)
    \<and> (''temp-'' @ string_of_nat i) \<notin> alerts (checkThresholds th d st)"
proof -
  have u: "(''temp-'' @ string_of_nat i) \<in> set (unread_temperature_keys th d)"
    using assms by (intro unread_member) (simp_all add: evaluated_reading_def)
  have a: "temperature_alert th i (gpus d ! i) st'
           = st'\<lparr>alerts := alerts st' - {''temp-'' @ string_of_nat i}\<rparr>"
    using assms(2) by (simp add: temperature_alert_def)
  have t: "(''temp-'' @ string_of_nat i) \<notin> m_key ` set (tracked_metrics th d)"
    using unread_not_tracked [of th d] u by blast
  from a t alerts_after_unread [OF u] show ?thesis by blast
qed

theorem missing_temperature_clears_key_witness:
  "temperature_alert DEFAULT_THRESHOLDS 0 (gpu_reading 0 50 None) \<lparr>alerts = {''temp-0''}, toasts = []\<rparr>
     = no_alerts
   \<and> ''temp-0'' \<notin> alerts (checkThresholds DEFAULT_THRESHOLDS (gpu_snapshot [gpu_reading 0 50 None])
                             \<lparr>alerts = {''temp-0''}, toasts = []\<rparr>)"
  using missing_temperature_clears_key [of 0 "gpu_snapshot [gpu_reading 0 50 None]"
      DEFAULT_THRESHOLDS "\<lparr>alerts = {''temp-0''}, toasts = []\<rparr>"
      "\<lparr>alerts = {''temp-0''}, toasts = []\<rparr>"]
  by (simp add: example_defs digits)

text \<open>
  Claim C7 as stated says that a missing reading never clears the key. It does: the key
  of the device is active before the evaluation and inactive after it.
\<close>

theorem missing_temperature_changes_membership:
  "temperature_celsius (current (gpu_reading 0 50 None)) = None
   \<and> ''temp-0'' \<in> alerts \<lparr>alerts = {''temp-0''}, toasts = []\<rparr>
   \<and> ''temp-0'' \<notin> alerts (checkThresholds DEFAULT_THRESHOLDS (gpu_snapshot [gpu_reading 0 50 None])
                             \<lparr>alerts = {''temp-0''}, toasts = []\<rparr>)"
  by (simp add: evaluator_defs example_defs digits)

lemma gpu_key_after:
  assumes "i < length (gpus d)"
  shows "((''gpu-'' @ string_of_nat i) \<in> alerts (checkThresholds th d st))
     = (if gpu_utilization (current (gpus d ! i)) \<ge> gpu th
            \<and> (''gpu-'' @ string_of_nat i) \<notin> alerts st then True
        else if gpu_utilization (current (gpus d ! i)) < gpu th * 0.9 then False
        else (''gpu-'' @ string_of_nat i) \<in> alerts st)"
proof -
  have m: "gpu_tracked th i (gpus d ! i) \<in> set (tracked_metrics th d)"
    using device_in_tracked [OF assms, of th] by (simp add: device_tracked_def)
  show ?thesis
    using alerts_after_tracked [OF m, of st]
    by (simp add: gpu_tracked_def enters_def clears_def)
qed

lemma gpu_memory_key_after:
  assumes "i < length (gpus d)"
  shows "((''gpuMem-'' @ string_of_nat i) \<in> alerts (checkThresholds th d st))
     = (if memory_utilization (current (gpus d ! i)) \<ge> gpuMemory th
            \<and> (''gpuMem-'' @ string_of_nat i) \<notin> alerts st then True
        else if memory_utilization (current (gpus d ! i)) < gpuMemory th * 0.9 then False
        else (''gpuMem-'' @ string_of_nat i) \<in> alerts st)"
proof -
  have m: "gpu_memory_tracked th i (gpus d ! i) \<in> set (tracked_metrics th d)"
    using device_in_tracked [OF assms, of th] by (simp add: device_tracked_def)
  show ?thesis
    using alerts_after_tracked [OF m, of st]
    by (simp add: gpu_memory_tracked_def enters_def clears_def)
qed

lemma temperature_key_after:
  assumes "i < length (gpus d)"
  shows "((''temp-'' @ string_of_nat i) \<in> alerts (checkThresholds th d st))
     = (case temperature_celsius (current (gpus d ! i)) of
          None \<Rightarrow> False
        | Some t \<Rightarrow>
            if t = 0 then False
            else if t \<ge> temperature th \<and> (''temp-'' @ string_of_nat i) \<notin> alerts st then True
            else if t < temperature th * 0.9 then False
            else (''temp-'' @ string_of_nat i) \<in> alerts st)"
proof (cases "temperature_celsius (current (gpus d ! i))")
  case None
  then have "\<not> evaluated_reading th (temperature_celsius (current (gpus d ! i)))"
    by (simp add: evaluated_reading_def)
  from alerts_after_unread [OF unread_member [OF assms this], of st] None
  show ?thesis by simp
next
  case (Some t)
  show ?thesis
  proof (cases "t \<noteq> 0 \<or> 0 < temperature th")
    case False
    with Some have "\<not> evaluated_reading th (temperature_celsius (current (gpus d ! i)))"
      by (simp add: evaluated_reading_def)
    from alerts_after_unread [OF unread_member [OF assms this], of st] Some False
    show ?thesis by simp
  next
    case True
    have m: "temperature_tracked th i t \<in> set (tracked_metrics th d)"
      using device_in_tracked [OF assms, of th] Some True by (simp add: device_tracked_def)
    show ?thesis
    proof (cases "t = 0")
      case z: True
      with True have "0 < temperature th" by simp
      then show ?thesis
        using alerts_after_tracked [OF m, of st] Some z
        by (simp add: temperature_tracked_def enters_def clears_def)
    next
      case nz: False
      show ?thesis
        using alerts_after_tracked [OF m, of st] Some nz
        by (simp add: temperature_tracked_def enters_def clears_def)
    qed
  qed
qed

text \<open>
  Claim C9, as amended. The keys of a GPU are built from its index \<open>i\<close> in the array
  \<^verbatim>\<open>gpus\<close> of the snapshot: \<open>gpu-i\<close>, \<open>gpuMem-i\<close> and \<open>temp-i\<close>. After an evaluation,
  whether such a key is active depends only on the reading of the GPU at that index and
  on whether the key was active before. For two GPUs at 95 and 50 percent utilization
  against the threshold 90, the evaluation shows one event, for the first GPU, and the
  only active key is \<open>gpu-0\<close>.
\<close>

theorem devices_alert_independently_by_index:
  "(\<forall>i<length (gpus d).
      (((''gpu-'' @ string_of_nat i) \<in> alerts (checkThresholds th d st))
         = (if gpu_utilization (current (gpus d ! i)) \<ge> gpu th
                \<and> (''gpu-'' @ string_of_nat i) \<notin> alerts st then True
            else if gpu_utilization (current (gpus d ! i)) < gpu th * 0.9 then False
            else (''gpu-'' @ string_of_nat i) \<in> alerts st))
      \<and> (((''gpuMem-'' @ string_of_nat i) \<in> alerts (checkThresholds th d st))
         = (if memory_utilization (current (gpus d ! i)) \<ge> gpuMemory th
                \<and> (''gpuMem-'' @ string_of_nat i) \<notin> alerts st then True
            else if memory_utilization (current (gpus d ! i)) < gpuMemory th * 0.9 then False
            else (''gpuMem-'' @ string_of_nat i) \<in> alerts st))
      \<and> (((''temp-'' @ string_of_nat i) \<in> alerts (checkThresholds th d st))
         = (case temperature_celsius (current (gpus d ! i)) of
              None \<Rightarrow> False
            | Some t \<Rightarrow>
                if t = 0 then False
                else if t \<ge> temperature th \<and> (''temp-'' @ string_of_nat i) \<notin> alerts st
                then True
                else if t < temperature th * 0.9 then False
                else (''temp-'' @ string_of_nat i) \<in> alerts st)))
   \<and> gpu DEFAULT_THRESHOLDS = 90
   \<and> toasts (checkThresholds DEFAULT_THRESHOLDS
               (gpu_snapshot [gpu_reading 0 95 None, gpu_reading 1 50 None]) no_alerts)
       = [\<lparr>toast_type = ''warning'', message = ''GPU at 95%'', duration = 5000\<rparr>]
   \<and> alerts (checkThresholds DEFAULT_THRESHOLDS
               (gpu_snapshot [gpu_reading 0 95 None, gpu_reading 1 50 None]) no_alerts)
       = {''gpu-0''}"
proof -
  have ex: "gpu DEFAULT_THRESHOLDS = 90
   \<and> toasts (checkThresholds DEFAULT_THRESHOLDS
               (gpu_snapshot [gpu_reading 0 95 None, gpu_reading 1 50 None]) no_alerts)
       = [\<lparr>toast_type = ''warning'', message = ''GPU at 95%'', duration = 5000\<rparr>]
   \<and> alerts (checkThresholds DEFAULT_THRESHOLDS
               (gpu_snapshot [gpu_reading 0 95 None, gpu_reading 1 50 None]) no_alerts)
       = {''gpu-0''}"
    by (simp add: evaluator_defs example_defs toFixed0_def digits)
  have dev: "\<forall>i<length (gpus d).
      (((''gpu-'' @ string_of_nat i) \<in> alerts (checkThresholds th d st))
         = (if gpu_utilization (current (gpus d ! i)) \<ge> gpu th
                \<and> (''gpu-'' @ string_of_nat i) \<notin> alerts st then True
            else if gpu_utilization (current (gpus d ! i)) < gpu th * 0.9 then False
            else (''gpu-'' @ string_of_nat i) \<in> alerts st))
      \<and> (((''gpuMem-'' @ string_of_nat i) \<in> alerts (checkThresholds th d st))
         = (if memory_utilization (current (gpus d ! i)) \<ge> gpuMemory th
                \<and> (''gpuMem-'' @ string_of_nat i) \<notin> alerts st then True
            else if memory_utilization (current (gpus d ! i)) < gpuMemory th * 0.9 then False
            else (''gpuMem-'' @ string_of_nat i) \<in> alerts st))
      \<and> (((''temp-'' @ string_of_nat i) \<in> alerts (checkThresholds th d st))
         = (case temperature_celsius (current (gpus d ! i)) of
              None \<Rightarrow> False
            | Some t \<Rightarrow>
                if t = 0 then False
                else if t \<ge> temperature th \<and> (''temp-'' @ string_of_nat i) \<notin> alerts st
                then True
                else if t < temperature th * 0.9 then False
                else (''temp-'' @ string_of_nat i) \<in> alerts st))"
  proof (intro allI impI conjI)
    fix i assume i: "i < length (gpus d)"
    show "((''gpu-'' @ string_of_nat i) \<in> alerts (checkThresholds th d st))
         = (if gpu_utilization (current (gpus d ! i)) \<ge> gpu th
                \<and> (''gpu-'' @ string_of_nat i) \<notin> alerts st then True
            else if gpu_utilization (current (gpus d ! i)) < gpu th * 0.9 then False
            else (''gpu-'' @ string_of_nat i) \<in> alerts st)"
      by (rule gpu_key_after [OF i])
    show "((''gpuMem-'' @ string_of_nat i) \<in> alerts (checkThresholds th d st))
         = (if memory_utilization (current (gpus d ! i)) \<ge> gpuMemory th
                \<and> (''gpuMem-'' @ string_of_nat i) \<notin> alerts st then True
            else if memory_utilization (current (gpus d ! i)) < gpuMemory th * 0.9 then False
            else (''gpuMem-'' @ string_of_nat i) \<in> alerts st)"
      by (rule gpu_memory_key_after [OF i])
    show "((''temp-'' @ string_of_nat i) \<in> alerts (checkThresholds th d st))
         = (case temperature_celsius (current (gpus d ! i)) of
              None \<Rightarrow> False
            | Some t \<Rightarrow>
                if t = 0 then False
                else if t \<ge> temperature th \<and> (''temp-'' @ string_of_nat i) \<notin> alerts st
                then True
                else if t < temperature th * 0.9 then False
                else (''temp-'' @ string_of_nat i) \<in> alerts st)"
      by (rule temperature_key_after [OF i])
  qed
  from dev ex show ?thesis by (rule conjI)
qed


theorem devices_alert_independently_by_index_witness:
  "''gpu-0'' \<in> alerts (checkThresholds DEFAULT_THRESHOLDS
                (gpu_snapshot [gpu_reading 5 95 (Some 70), gpu_reading 6 50 None]) no_alerts)
   \<and> ''gpu-1'' \<notin> alerts (checkThresholds DEFAULT_THRESHOLDS
                (gpu_snapshot [gpu_reading 5 95 (Some 70), gpu_reading 6 50 None]) no_alerts)
   \<and> ''temp-0'' \<notin> alerts (checkThresholds DEFAULT_THRESHOLDS
                (gpu_snapshot [gpu_reading 5 95 (Some 70), gpu_reading 6 50 None]) no_alerts)"
  using devices_alert_independently_by_index
      [of "gpu_snapshot [gpu_reading 5 95 (Some 70), gpu_reading 6 50 None]"
        DEFAULT_THRESHOLDS no_alerts, THEN conjunct1, THEN spec, of 0]
    devices_alert_independently_by_index
      [of "gpu_snapshot [gpu_reading 5 95 (Some 70), gpu_reading 6 50 None]"
        DEFAULT_THRESHOLDS no_alerts, THEN conjunct1, THEN spec, of 1]
  by (simp add: example_defs digits)

text \<open>
  Claim C9 as stated builds the key from the identifier of the device. The GPU with
  identifier 7 stands first in the array, and its alert is recorded under \<open>gpu-0\<close>.
\<close>

theorem gpu_key_is_array_index_not_id:
  "gpu_id (info (gpu_reading 7 95 None)) = 7
   \<and> gpu_id (info (gpu_reading 3 50 None)) = 3
   \<and> alerts (checkThresholds DEFAULT_THRESHOLDS
               (gpu_snapshot [gpu_reading 7 95 None, gpu_reading 3 50 None]) no_alerts)
       = {''gpu-0''}
   \<and> ''gpu-7'' \<notin> alerts (checkThresholds DEFAULT_THRESHOLDS
               (gpu_snapshot [gpu_reading 7 95 None, gpu_reading 3 50 None]) no_alerts)"
  by (simp add: evaluator_defs example_defs digits)

text \<open>
  Claim C10, as amended. Saving a configuration empties the active set, whatever it
  held, and leaves the events shown so far; it makes the saved configuration the
  current one, and it neither cancels the fetches that are pending nor changes the
  thresholds they were started with. The effect that follows the save registers the
  timer again and starts a fetch, both with the saved thresholds, behind the fetches
  already pending. So the first evaluation after the save starts from the empty active
  set and uses the thresholds of the fetch that settles: a fetch that was pending at the
  save is evaluated under the thresholds it was started with, whether it settles before
  or after the effect has run again; when none was pending, the fetch started by the
  effect is evaluated under the saved thresholds.

  An evaluation that starts from the empty active set shows one event for every metric
  of the evaluator whose value is at or above the threshold that this evaluation uses,
  and makes its key active, also for a metric that had alerted before the save. The
  metrics are the CPU, memory and swap usage and, for every GPU, its utilization, its
  memory utilization and its temperature when the reading is present and, for a reading
  of 0, the temperature threshold is positive. This holds for every number \<open>p\<close> that
  the evaluation computes as the swap percentage; the text of the events is that of the
  rule when every value is below \<open>10\<^sup>2\<^sup>1\<close> in magnitude.
\<close>

theorem save_resets_alerts:
  "alerts (alerting (handleSaveThresholds ok new s)) = {}
   \<and> toasts (alerting (handleSaveThresholds ok new s)) = toasts (alerting s)
   \<and> thresholds (handleSaveThresholds ok new s) = new
   \<and> pending (handleSaveThresholds ok new s) = pending s
   \<and> interval (handleSaveThresholds ok new s) = interval s
   \<and> pending (effect_setup True (effect_cleanup (handleSaveThresholds ok new s)))
       = pending s @ [new]
   \<and> interval (effect_setup True (effect_cleanup (handleSaveThresholds ok new s))) = Some new
   \<and> (\<forall>old rest. pending s = old # rest \<longrightarrow>
         alerting (fetch_settled (Inr d) (handleSaveThresholds ok new s))
           = checkThresholds old d ((alerting s)\<lparr>alerts := {}\<rparr>)
         \<and> alerting (fetch_settled (Inr d)
                      (effect_setup True (effect_cleanup (handleSaveThresholds ok new s))))
           = checkThresholds old d ((alerting s)\<lparr>alerts := {}\<rparr>))
   \<and> (pending s = [] \<longrightarrow>
         alerting (fetch_settled (Inr d)
                    (effect_setup True (effect_cleanup (handleSaveThresholds ok new s))))
           = checkThresholds new d ((alerting s)\<lparr>alerts := {}\<rparr>))
   \<and> (alerts st = {} \<longrightarrow>
         map toast_type (toasts (checkThresholds_at p th d st))
           = map toast_type (toasts st)
             @ map (\<lambda>m. toast_type (m_event m))
                 (filter (\<lambda>m. m_limit m \<le> m_value m) (tracked_metrics_at p th d))
         \<and> (\<forall>m\<in>set (tracked_metrics_at p th d).
               m_limit m \<le> m_value m \<longrightarrow> m_key m \<in> alerts (checkThresholds_at p th d st))
         \<and> ((\<forall>m\<in>set (tracked_metrics_at p th d). \<bar>m_value m\<bar> < 10 ^ 21)
              \<longrightarrow> toasts (checkThresholds_at p th d st)
                    = toasts st
                      @ map m_event
                          (filter (\<lambda>m. m_limit m \<le> m_value m) (tracked_metrics_at p th d))))"
proof -
  let ?s = "handleSaveThresholds ok new s"
  have a: "alerts (alerting ?s) = {}"
    and t: "toasts (alerting ?s) = toasts (alerting s)"
    and n: "thresholds ?s = new"
    and q: "pending ?s = pending s"
    and i: "interval ?s = interval s"
    and al: "alerting ?s = (alerting s)\<lparr>alerts := {}\<rparr>"
    by (simp_all add: handleSaveThresholds_def saveThresholds_def)
  have q2: "pending (effect_setup True (effect_cleanup ?s)) = pending s @ [new]"
    and i2: "interval (effect_setup True (effect_cleanup ?s)) = Some new"
    and al2: "alerting (effect_setup True (effect_cleanup ?s)) = (alerting s)\<lparr>alerts := {}\<rparr>"
    by (simp_all add: effect_setup_def effect_cleanup_def n q al)
  have stale: "alerting (fetch_settled (Inr d) ?s)
           = checkThresholds old d ((alerting s)\<lparr>alerts := {}\<rparr>)
         \<and> alerting (fetch_settled (Inr d) (effect_setup True (effect_cleanup ?s)))
           = checkThresholds old d ((alerting s)\<lparr>alerts := {}\<rparr>)"
    if "pending s = old # rest" for old rest
    using that by (simp add: fetch_settled_def fetchMetrics_def q q2 al al2)
  have fresh: "alerting (fetch_settled (Inr d) (effect_setup True (effect_cleanup ?s)))
           = checkThresholds new d ((alerting s)\<lparr>alerts := {}\<rparr>)"
    if "pending s = []"
    using that by (simp add: fetch_settled_def fetchMetrics_def q2 al2)
  have e: "enters {} = (\<lambda>m. m_limit m \<le> m_value m)"
    by (rule ext) (rule enters_empty)
  have ev: "toasts (checkThresholds_at p th d st)
       = toasts st
         @ map m_event (filter (\<lambda>m. m_limit m \<le> m_value m) (tracked_metrics_at p th d))"
    if "alerts st = {}"
    by (simp only: toasts_checkThresholds_at that e)
  have ty: "map toast_type (toasts (checkThresholds_at p th d st))
           = map toast_type (toasts st)
             @ map (\<lambda>m. toast_type (m_event m))
                 (filter (\<lambda>m. m_limit m \<le> m_value m) (tracked_metrics_at p th d))"
    if "alerts st = {}"
    by (simp add: ev [OF that] o_def)
  have k: "\<forall>m\<in>set (tracked_metrics_at p th d).
             m_limit m \<le> m_value m \<longrightarrow> m_key m \<in> alerts (checkThresholds_at p th d st)"
    if "alerts st = {}"
    using alerts_after_tracked_at [of _ p th d st] by (simp add: that enters_empty)
  from a t n q i q2 i2 stale fresh ev ty k show ?thesis by blast
qed

theorem save_resets_alerts_witness:
  "alerts (alerting (handleSaveThresholds True (DEFAULT_THRESHOLDS\<lparr>cpu := 50\<rparr>)
             ((effect_setup True (initial_page DEFAULT_THRESHOLDS))
                \<lparr>alerting := \<lparr>alerts = {''cpu''}, toasts = []\<rparr>\<rparr>))) = {}
   \<and> alerting (fetch_settled (Inr (cpu_reading 95))
        (handleSaveThresholds True (DEFAULT_THRESHOLDS\<lparr>cpu := 50\<rparr>)
           ((effect_setup True (initial_page DEFAULT_THRESHOLDS))
              \<lparr>alerting := \<lparr>alerts = {''cpu''}, toasts = []\<rparr>\<rparr>)))
       = checkThresholds DEFAULT_THRESHOLDS (cpu_reading 95) no_alerts
   \<and> alerting (fetch_settled (Inr (cpu_reading 95))
        (effect_setup True (effect_cleanup
           (handleSaveThresholds True (DEFAULT_THRESHOLDS\<lparr>cpu := 50\<rparr>)
              ((initial_page DEFAULT_THRESHOLDS)
                 \<lparr>alerting := \<lparr>alerts = {''cpu''}, toasts = []\<rparr>\<rparr>)))))
       = checkThresholds (DEFAULT_THRESHOLDS\<lparr>cpu := 50\<rparr>) (cpu_reading 95) no_alerts
   \<and> toasts (checkThresholds_at 0 (DEFAULT_THRESHOLDS\<lparr>cpu := 50\<rparr>) (cpu_reading 60) no_alerts)
       = [\<lparr>toast_type = ''warning'', message = ''CPU critical: 60%'', duration = 5000\<rparr>]
   \<and> ''cpu'' \<in> alerts (checkThresholds_at 0 (DEFAULT_THRESHOLDS\<lparr>cpu := 50\<rparr>) (cpu_reading 60)
                           no_alerts)"
  using
    save_resets_alerts [where ok = True and new = "DEFAULT_THRESHOLDS\<lparr>cpu := 50\<rparr>"
      and s = "(effect_setup True (initial_page DEFAULT_THRESHOLDS))
                 \<lparr>alerting := \<lparr>alerts = {''cpu''}, toasts = []\<rparr>\<rparr>"
      and d = "cpu_reading 95" and st = no_alerts and p = 0 and th = DEFAULT_THRESHOLDS]
    save_resets_alerts [where ok = True and new = "DEFAULT_THRESHOLDS\<lparr>cpu := 50\<rparr>"
      and s = "(initial_page DEFAULT_THRESHOLDS)
                 \<lparr>alerting := \<lparr>alerts = {''cpu''}, toasts = []\<rparr>\<rparr>"
      and d = "cpu_reading 95" and st = no_alerts and p = 0 and th = DEFAULT_THRESHOLDS]
    save_resets_alerts [where ok = True and new = "DEFAULT_THRESHOLDS\<lparr>cpu := 50\<rparr>"
      and s = "initial_page DEFAULT_THRESHOLDS"
      and d = "cpu_reading 60" and st = no_alerts and p = 0
      and th = "DEFAULT_THRESHOLDS\<lparr>cpu := 50\<rparr>"]
  by (simp add: tracked_defs example_defs initial_page_def effect_setup_def effect_cleanup_def
      handleSaveThresholds_def saveThresholds_def fetch_settled_def fetchMetrics_def
      toFixed0_def digits)

text \<open>
  Claim C10 as stated promises an event at the next evaluation for any metric at or above
  its new threshold. A fetch is pending when the CPU threshold 50 is saved over 90; it
  settles with a CPU usage of 60, which is above the new threshold, and the evaluation,
  the first after the save, shows nothing and activates no key, whether it settles
  before or after the effect has run again.
\<close>

theorem stale_fetch_after_save_uses_old_thresholds:
  "cpu (DEFAULT_THRESHOLDS\<lparr>cpu := 50\<rparr>) = 50
   \<and> cpu_usage (system (cpu_reading 60)) = 60
   \<and> pending (effect_setup True (initial_page DEFAULT_THRESHOLDS)) = [DEFAULT_THRESHOLDS]
   \<and> alerting (fetch_settled (Inr (cpu_reading 60))
        (handleSaveThresholds True (DEFAULT_THRESHOLDS\<lparr>cpu := 50\<rparr>)
           (effect_setup True (initial_page DEFAULT_THRESHOLDS))))
       = no_alerts
   \<and> alerting (fetch_settled (Inr (cpu_reading 60))
        (effect_setup True (effect_cleanup
           (handleSaveThresholds True (DEFAULT_THRESHOLDS\<lparr>cpu := 50\<rparr>)
              (effect_setup True (initial_page DEFAULT_THRESHOLDS))))))
       = no_alerts"
  by (simp add: evaluator_defs example_defs initial_page_def effect_setup_def effect_cleanup_def
      handleSaveThresholds_def saveThresholds_def fetch_settled_def fetchMetrics_def)

lemma failed_fetches_keep_timer:
  "interval (fold fetch_settled (map Inl errs) s) = interval s
   \<and> alerting (fold fetch_settled (map Inl errs) s) = alerting s
   \<and> historicalData (fold fetch_settled (map Inl errs) s) = historicalData s"
  by (induction errs arbitrary: s)
    (simp_all add: fetch_settled_def fetchMetrics_def split: list.split)

text \<open>
  Claim C4. When the pending fetch fails, the page state changes in the error message
  alone: the history buffers, the alert state, the last snapshot and the timer are as
  before, the failed call is no longer pending, and the next firing of the timer starts
  a new fetch. After any number of failed fetches the timer is still registered.
\<close>

theorem failed_fetch_sets_error_only:
  assumes "pending s = th # rest" and "interval s = Some th'"
  shows "fetch_settled (Inl err) s = s\<lparr>pending := rest, error := Some (error_message err)\<rparr>
    \<and> error (fetch_settled (Inl err) s) = Some (error_message err)
    \<and> historicalData (fetch_settled (Inl err) s) = historicalData s
    \<and> alerting (fetch_settled (Inl err) s) = alerting s
    \<and> metrics (fetch_settled (Inl err) s) = metrics s
    \<and> interval (fetch_settled (Inl err) s) = Some th'
    \<and> pending (interval_tick (fetch_settled (Inl err) s)) = rest @ [th']
    \<and> interval (fold fetch_settled (map Inl errs) s) = Some th'
    \<and> alerting (fold fetch_settled (map Inl errs) s) = alerting s
    \<and> historicalData (fold fetch_settled (map Inl errs) s) = historicalData s"
  using assms failed_fetches_keep_timer [of errs s]
  by (simp add: fetch_settled_def fetchMetrics_def interval_tick_def)

theorem failed_fetch_sets_error_only_witness:
  "error (fetch_settled (Inl (ErrorObject ''no backend''))
            (effect_setup True (initial_page DEFAULT_THRESHOLDS))) = Some ''no backend''
   \<and> error (fetch_settled (Inl OtherValue)
            (effect_setup True (initial_page DEFAULT_THRESHOLDS))) = Some ''Failed to load metrics''
   \<and> historicalData (fetch_settled (Inl OtherValue)
            (effect_setup True (initial_page DEFAULT_THRESHOLDS))) = initialHistoricalData
   \<and> pending (interval_tick (fetch_settled (Inl OtherValue)
            (effect_setup True (initial_page DEFAULT_THRESHOLDS)))) = [DEFAULT_THRESHOLDS]"
  using failed_fetch_sets_error_only
      [of "effect_setup True (initial_page DEFAULT_THRESHOLDS)" DEFAULT_THRESHOLDS "[]"
        DEFAULT_THRESHOLDS "ErrorObject ''no backend''" "[]"]
    failed_fetch_sets_error_only
      [of "effect_setup True (initial_page DEFAULT_THRESHOLDS)" DEFAULT_THRESHOLDS "[]"
        DEFAULT_THRESHOLDS OtherValue "[]"]
  by (simp add: effect_setup_def initial_page_def error_message_def fetch_settled_def
      fetchMetrics_def interval_tick_def)

text \<open>
  Claim C5, as amended. The cleanup of the effect cancels the timer, so no later firing
  starts a fetch. A fetch that is pending at that moment is not guarded: when it
  settles, the alert evaluation runs on its result exactly as it would without the
  cleanup, with the thresholds of its closure; a failed fetch leaves the alert state
  unchanged.
\<close>

theorem cleanup_cancels_timer_only:
  "interval (effect_cleanup s) = None
   \<and> interval_tick (effect_cleanup s) = effect_cleanup s
   \<and> alerting (fetch_settled r (effect_cleanup s)) = alerting (fetch_settled r s)
   \<and> (pending s = th # rest
        \<longrightarrow> alerting (fetch_settled (Inr data) (effect_cleanup s))
              = checkThresholds th data (alerting s))
   \<and> alerting (fetch_settled (Inl err) (effect_cleanup s)) = alerting s"
  by (simp add: effect_cleanup_def interval_tick_def fetch_settled_def fetchMetrics_def
      split: list.split sum.split)

theorem cleanup_cancels_timer_only_witness:
  "interval (effect_cleanup (effect_setup True (initial_page DEFAULT_THRESHOLDS))) = None
   \<and> alerting (fetch_settled (Inr (cpu_reading 50))
        (effect_cleanup (effect_setup True (initial_page DEFAULT_THRESHOLDS)))) = no_alerts"
  using cleanup_cancels_timer_only
      [of "effect_setup True (initial_page DEFAULT_THRESHOLDS)" "Inr (cpu_reading 50)"
        DEFAULT_THRESHOLDS "[]" "cpu_reading 50" OtherValue]
  by (simp add: effect_setup_def effect_cleanup_def initial_page_def fetch_settled_def
      fetchMetrics_def evaluator_defs example_defs)

text \<open>
  Claim C5 as stated says that a result arriving after the cleanup causes no alert
  evaluation and no publication. The fetch started by the effect is pending when the
  cleanup runs; when it settles with a CPU usage of 95, the alert is evaluated and shown.
\<close>

theorem stale_result_is_evaluated:
  "interval (effect_cleanup (effect_setup True (initial_page DEFAULT_THRESHOLDS))) = None
   \<and> pending (effect_cleanup (effect_setup True (initial_page DEFAULT_THRESHOLDS)))
       = [DEFAULT_THRESHOLDS]
   \<and> alerting (effect_cleanup (effect_setup True (initial_page DEFAULT_THRESHOLDS))) = no_alerts
   \<and> alerting (fetch_settled (Inr (cpu_reading 95))
        (effect_cleanup (effect_setup True (initial_page DEFAULT_THRESHOLDS))))
       = \<lparr>alerts = {''cpu''},
          toasts = [\<lparr>toast_type = ''warning'', message = ''CPU critical: 95%'',
                     duration = 5000\<rparr>]\<rparr>"
  by (simp add: effect_cleanup_def effect_setup_def initial_page_def fetch_settled_def
      fetchMetrics_def evaluator_defs example_defs toFixed0_def digits)

lemma dom_config_object: "dom (config_object c) = set threshold_keys"
  by (auto simp add: config_object_def threshold_keys_def split: if_splits)

lemma default_gpuMemory: "config_object DEFAULT_THRESHOLDS ''gpuMemory'' = Some (JNumber 90)"
  by (simp add: config_object_def DEFAULT_THRESHOLDS_def)

lemma loadThresholds_complete: "set threshold_keys \<subseteq> dom (loadThresholds JSON_parse rd)"
  by (auto simp add: loadThresholds_def dom_config_object split: storage_read.split option.split)

text \<open>
  Claim C8. \<open>loadThresholds\<close> is a total function whose result always has the eight
  threshold properties. When the stored text parses to an object, the result is the
  defaults overridden by the properties of that object: a property the object lacks,
  such as \<open>gpuMemory\<close>, keeps its default, and every property it has keeps the stored
  value. When reading raises, when nothing is stored, when the stored text is empty and
  when it does not parse, the result is the defaults.
\<close>

theorem loadThresholds_merges_over_defaults:
  "set threshold_keys \<subseteq> dom (loadThresholds JSON_parse rd)
   \<and> (saved \<noteq> [] \<and> JSON_parse saved = Some (JObject kvs)
        \<longrightarrow> loadThresholds JSON_parse (Item saved)
              = config_object DEFAULT_THRESHOLDS ++ map_of (rev kvs)
            \<and> (\<forall>k. k \<notin> fst ` set kvs
                  \<longrightarrow> loadThresholds JSON_parse (Item saved) k
                        = config_object DEFAULT_THRESHOLDS k)
            \<and> (''gpuMemory'' \<notin> fst ` set kvs
                  \<longrightarrow> loadThresholds JSON_parse (Item saved) ''gpuMemory'' = Some (JNumber 90))
            \<and> (\<forall>k v. map_of (rev kvs) k = Some v
                  \<longrightarrow> loadThresholds JSON_parse (Item saved) k = Some v))
   \<and> loadThresholds JSON_parse GetItemThrows = config_object DEFAULT_THRESHOLDS
   \<and> loadThresholds JSON_parse NoItem = config_object DEFAULT_THRESHOLDS
   \<and> loadThresholds JSON_parse (Item []) = config_object DEFAULT_THRESHOLDS
   \<and> (JSON_parse saved = None
        \<longrightarrow> loadThresholds JSON_parse (Item saved) = config_object DEFAULT_THRESHOLDS)"
proof -
  have absent: "map_of (rev kvs) k = None" if "k \<notin> fst ` set kvs" for k
    using that by (simp add: map_of_eq_None_iff)
  have obj: "loadThresholds JSON_parse (Item saved)
              = config_object DEFAULT_THRESHOLDS ++ map_of (rev kvs)"
    if "saved \<noteq> []" and "JSON_parse saved = Some (JObject kvs)"
    using that by (simp add: loadThresholds_def own_properties_def)
  have fail: "loadThresholds JSON_parse GetItemThrows = config_object DEFAULT_THRESHOLDS"
    "loadThresholds JSON_parse NoItem = config_object DEFAULT_THRESHOLDS"
    "loadThresholds JSON_parse (Item []) = config_object DEFAULT_THRESHOLDS"
    by (simp_all add: loadThresholds_def)
  have bad: "loadThresholds JSON_parse (Item saved) = config_object DEFAULT_THRESHOLDS"
    if "JSON_parse saved = None"
    using that by (simp add: loadThresholds_def)
  show ?thesis
    using loadThresholds_complete [of JSON_parse rd] fail bad
    by (auto simp add: obj map_add_def absent default_gpuMemory)
qed

theorem loadThresholds_merges_over_defaults_witness:
  "loadThresholds (\<lambda>s. if s = ''{\"cpu\":70}'' then Some (JObject [(''cpu'', JNumber 70)]) else None)
      (Item ''{\"cpu\":70}'') ''cpu'' = Some (JNumber 70)
   \<and> loadThresholds (\<lambda>s. if s = ''{\"cpu\":70}'' then Some (JObject [(''cpu'', JNumber 70)]) else None)
      (Item ''{\"cpu\":70}'') ''gpuMemory'' = Some (JNumber 90)
   \<and> loadThresholds (\<lambda>s. if s = ''{\"cpu\":70}'' then Some (JObject [(''cpu'', JNumber 70)]) else None)
      (Item ''{cpu'') = config_object DEFAULT_THRESHOLDS"
  using loadThresholds_merges_over_defaults
      [of "\<lambda>s. if s = ''{\"cpu\":70}'' then Some (JObject [(''cpu'', JNumber 70)]) else None"
        "Item ''{\"cpu\":70}''" "''{\"cpu\":70}''" "[(''cpu'', JNumber 70)]"]
    loadThresholds_merges_over_defaults
      [of "\<lambda>s. if s = ''{\"cpu\":70}'' then Some (JObject [(''cpu'', JNumber 70)]) else None"
        "Item ''{cpu''" "''{cpu''" "[]"]
  by (simp add: loadThresholds_def own_properties_def config_object_def DEFAULT_THRESHOLDS_def)

end
